theory Spec2Isabelle
  imports Main
begin

section \<open>The declaration tree\<close>

text \<open>
  The schema is the tree the parser library hands to \<^verbatim>\<open>PrismaSchemaUtilsService\<close>.
  Every node of the TypeScript source carries a \<^verbatim>\<open>type\<close> tag; the tags are the
  constructors below. Optional members (\<^verbatim>\<open>args?\<close>, \<^verbatim>\<open>attributes?\<close>, \<^verbatim>\<open>array?\<close>,
  \<^verbatim>\<open>optional?\<close>) are options, since the source tells an absent member from an empty one.
  A numeric literal is carried by its decimal rendering: the source only interpolates it
  into a string.
\<close>

datatype Value =
    VString string
  | VNumber string
  | VBoolean bool
  | VFunc string "Value list"
  | VRelationArray "string list"
  | VArray "Value list"

datatype ArgValue = KeyValue string Value | Plain Value

record Attribute =
  kind :: string
  name :: string
  args :: "ArgValue list option"

record Field =
  name :: string
  fieldType :: string
  array :: "bool option"
  optional :: "bool option"
  attributes :: "Attribute list option"

datatype Property = PField Field | PAttribute Attribute | POther

record Model =
  name :: string
  properties :: "Property list"

record Enumerator =
  name :: string

record Enum =
  name :: string
  enumerators :: "Enumerator list"

datatype Block = BModel Model | BEnum Enum | BOther

type_synonym Schema = "Block list"

datatype EnumDataType =
    DataType_Id
  | Lookup
  | OptionSet
  | MultiSelectOptionSet
  | CreatedAt
  | UpdatedAt
  | SingleLineText
  | WholeNumber
  | DecimalNumber
  | Boolean
  | DateTime
  | Json

text \<open>Every \<^verbatim>\<open>throw\<close> of the source, and the \<^verbatim>\<open>TypeError\<close> the runtime raises when a
  member of \<^verbatim>\<open>undefined\<close> is read, is a value of this type.\<close>

datatype Error =
    UnsupportedDataType string
  | TypeError
  | EntityNotFound string
  | EnumNotFound string
  | ModelNotFound string
  | MultipleFieldsFound string string
  | NoFieldFound string string
  | RemoteModelAndFieldNotFound string string
  | BuilderError
  | ParseError

text \<open>
  The collaborators the service imports (naming utilities, reserved-word test, pluralizer,
  id-type tables, parser) are parameters: a record of functions passed to every operation
  that calls one of them. So are the string methods \<^verbatim>\<open>toLowerCase\<close> and \<^verbatim>\<open>trim\<close> of the
  runtime, whose result depends on the character set.
\<close>

record Env =
  formatModelName :: "string \<Rightarrow> string"
  formatFieldName :: "string \<Rightarrow> string"
  formatDisplayName :: "string \<Rightarrow> string"
  filterOutAmplicationAttributes :: "string list \<Rightarrow> string list"
  idTypePropertyMap :: "string \<Rightarrow> string option"
  idTypePropertyMapByFieldType :: "string \<Rightarrow> string option"
  isReservedName :: "string \<Rightarrow> bool"
  pluralize :: "string \<Rightarrow> string"
  isPlural :: "string \<Rightarrow> bool"
  toLowerCase :: "string \<Rightarrow> string"
  trim :: "string \<Rightarrow> string"
  createPrismaSchemaBuilder :: "string \<Rightarrow> Error + Schema"

text \<open>Modelled from the spec: the constants of \<^verbatim>\<open>./constants\<close>, which the spec calls
  the primary-key attribute, the canonical primary-key identifier and the type-level scope.\<close>

definition ID_ATTRIBUTE_NAME :: string where
  "ID_ATTRIBUTE_NAME = ''id''"

definition ID_FIELD_NAME :: string where
  "ID_FIELD_NAME = ''id''"

definition MODEL_TYPE_NAME :: string where
  "MODEL_TYPE_NAME = ''model''"

subsection \<open>Reading the tree\<close>

text \<open>\<^verbatim>\<open>schema.list.filter((item) => item.type === MODEL_TYPE_NAME)\<close> and its siblings.\<close>

fun modelsOf :: "Schema \<Rightarrow> Model list" where
  "modelsOf [] = []"
| "modelsOf (BModel m # bs) = m # modelsOf bs"
| "modelsOf (b # bs) = modelsOf bs"

fun enumsOf :: "Schema \<Rightarrow> Enum list" where
  "enumsOf [] = []"
| "enumsOf (BEnum e # bs) = e # enumsOf bs"
| "enumsOf (b # bs) = enumsOf bs"

fun fieldsOf :: "Property list \<Rightarrow> Field list" where
  "fieldsOf [] = []"
| "fieldsOf (PField f # ps) = f # fieldsOf ps"
| "fieldsOf (p # ps) = fieldsOf ps"

text \<open>\<^verbatim>\<open>xs?.some(p)\<close> read as a condition: \<^verbatim>\<open>undefined\<close> is falsy.\<close>

fun someOpt :: "('a \<Rightarrow> bool) \<Rightarrow> 'a list option \<Rightarrow> bool" where
  "someOpt p None = False"
| "someOpt p (Some xs) = list_ex p xs"

text \<open>\<^verbatim>\<open>xs?.find(p)\<close>.\<close>

fun findOpt :: "('a \<Rightarrow> bool) \<Rightarrow> 'a list option \<Rightarrow> 'a option" where
  "findOpt p None = None"
| "findOpt p (Some xs) = find p xs"

text \<open>An optional list with the absent list read as empty.\<close>

fun listOf :: "'a list option \<Rightarrow> 'a list" where
  "listOf None = []"
| "listOf (Some xs) = xs"

text \<open>\<^verbatim>\<open>`"${name}"`\<close>: a string literal is in the tree with its quotes.\<close>

definition quoted :: "string \<Rightarrow> string" where
  "quoted s = CHR 0x22 # s @ [CHR 0x22]"

text \<open>\<^verbatim>\<open>flag || false\<close>.\<close>

fun orFalse :: "bool option \<Rightarrow> bool" where
  "orFalse (Some b) = b"
| "orFalse None = False"

text \<open>\<^verbatim>\<open>(arg.value as Func).name === "now"\<close>: only a function-call marker has a
  \<^verbatim>\<open>name\<close>; on every other value the member is \<^verbatim>\<open>undefined\<close>.\<close>

fun isNowArg :: "ArgValue \<Rightarrow> bool" where
  "isNowArg (Plain (VFunc n ps)) = (n = ''now'')"
| "isNowArg v = False"

section \<open>The field classifier\<close>

definition idType :: "Field \<Rightarrow> EnumDataType option" where
  "idType field =
     (if someOpt (\<lambda>attribute. Attribute.name attribute = ID_ATTRIBUTE_NAME) (attributes field)
      then Some DataType_Id else None)"

definition lookupRelationType :: "Field \<Rightarrow> EnumDataType option" where
  "lookupRelationType field =
     (if someOpt (\<lambda>attribute. Attribute.name attribute = ''relation'') (attributes field)
      then Some Lookup else None)"

definition lookupModelType :: "Env \<Rightarrow> Schema \<Rightarrow> Field \<Rightarrow> EnumDataType option" where
  "lookupModelType E schema field =
     (case find (\<lambda>model. formatModelName E (Model.name model) =
                          formatModelName E (fieldType field)) (modelsOf schema) of
        Some fieldModelType \<Rightarrow> Some Lookup
      | None \<Rightarrow> None)"

definition createAtType :: "Field \<Rightarrow> EnumDataType option" where
  "createAtType field =
     (case findOpt (\<lambda>attribute. Attribute.name attribute = ''default'') (attributes field) of
        None \<Rightarrow> None
      | Some createdAtDefaultAttribute \<Rightarrow>
          if someOpt isNowArg (args createdAtDefaultAttribute) then Some CreatedAt else None)"

definition updatedAtType :: "Field \<Rightarrow> EnumDataType option" where
  "updatedAtType field =
     (let updatedAtAttribute =
            someOpt (\<lambda>attribute. Attribute.name attribute = ''updatedAt'') (attributes field);
          updatedAtDefaultAttribute =
            findOpt (\<lambda>attribute. Attribute.name attribute = ''default'') (attributes field);
          updatedAtNowArg =
            (case updatedAtDefaultAttribute of
               None \<Rightarrow> False
             | Some a \<Rightarrow> someOpt isNowArg (args a))
      in if updatedAtAttribute \<or> (updatedAtDefaultAttribute \<noteq> None \<and> updatedAtNowArg)
         then Some UpdatedAt else None)"

definition optionSetType :: "Schema \<Rightarrow> Field \<Rightarrow> EnumDataType option" where
  "optionSetType schema field =
     (case find (\<lambda>enumItem. Enum.name enumItem = fieldType field) (enumsOf schema) of
        Some fieldOptionSetType \<Rightarrow> Some OptionSet
      | None \<Rightarrow> None)"

definition multiSelectOptionSetType :: "Schema \<Rightarrow> Field \<Rightarrow> EnumDataType option" where
  "multiSelectOptionSetType schema field =
     (let isMultiSelect = orFalse (array field)
      in case find (\<lambda>enumItem. Enum.name enumItem = fieldType field \<and> isMultiSelect)
                   (enumsOf schema) of
           Some fieldOptionSetType \<Rightarrow> Some MultiSelectOptionSet
         | None \<Rightarrow> None)"

text \<open>The members of \<^verbatim>\<open>ScalarType\<close> are the type tags of the schema language
  themselves.\<close>

definition scalarType :: "Field \<Rightarrow> EnumDataType option" where
  "scalarType field =
     (if fieldType field = ''String'' then Some SingleLineText
      else if fieldType field = ''Int'' then Some WholeNumber
      else if fieldType field = ''Float'' then Some DecimalNumber
      else if fieldType field = ''Boolean'' then Some Boolean
      else if fieldType field = ''DateTime'' then Some DateTime
      else if fieldType field = ''Json'' then Some Json
      else None)"

text \<open>The ordered list of cases, without its last entry (the one that throws).\<close>

definition fieldDataTypCases :: "Env \<Rightarrow> Schema \<Rightarrow> Field \<Rightarrow> EnumDataType option list" where
  "fieldDataTypCases E schema field =
     [ idType field,
       lookupRelationType field,
       lookupModelType E schema field,
       optionSetType schema field,
       multiSelectOptionSetType schema field,
       createAtType field,
       updatedAtType field,
       scalarType field ]"

text \<open>The loop \<^verbatim>\<open>for (const fieldDataTypCase of fieldDataTypCases)\<close>: the first
  defined result is returned; the last case throws.\<close>

fun firstResult :: "Field \<Rightarrow> EnumDataType option list \<Rightarrow> Error + EnumDataType" where
  "firstResult field [] = Inl (UnsupportedDataType (fieldType field))"
| "firstResult field (Some result # cases) = Inr result"
| "firstResult field (None # cases) = firstResult field cases"

definition resolveFieldDataType :: "Env \<Rightarrow> Schema \<Rightarrow> Field \<Rightarrow> Error + EnumDataType" where
  "resolveFieldDataType E schema field = firstResult field (fieldDataTypCases E schema field)"

section \<open>Entity and field descriptors\<close>

text \<open>
  The \<^verbatim>\<open>properties\<close> payload of a field descriptor is a JSON object; each shape the
  converters build is a constructor. \<^verbatim>\<open>idType\<close> is a table lookup and may be
  \<^verbatim>\<open>undefined\<close>; an option of an enumeration-backed field is its label and its value;
  a lookup carries \<^verbatim>\<open>relatedEntityId\<close> and \<^verbatim>\<open>allowMultipleSelection\<close> (its
  \<^verbatim>\<open>fkHolder\<close> is always \<^verbatim>\<open>null\<close>).
\<close>

datatype Properties =
    NoProperties
  | SingleLineTextProperties nat
  | WholeNumberProperties int int
  | DecimalNumberProperties int int nat
  | DateTimeProperties string bool
  | IdProperties "string option"
  | OptionSetProperties "(string \<times> string) list"
  | LookupProperties string bool

text \<open>\<^verbatim>\<open>unique\<close> is the result of \<^verbatim>\<open>field.attributes?.some(...)\<close>, which is
  \<^verbatim>\<open>undefined\<close> for a field without an attribute list.\<close>

record CreateBulkFieldsInput =
  name :: string
  displayName :: string
  dataType :: EnumDataType
  required :: bool
  unique :: "bool option"
  searchable :: bool
  description :: string
  properties :: Properties
  customAttributes :: string
  relatedFieldName :: "string option"
  relatedFieldDisplayName :: "string option"
  relatedFieldAllowMultipleSelection :: "bool option"

text \<open>The members \<^verbatim>\<open>id\<close> and \<^verbatim>\<open>fields\<close> of the source are \<open>entity_id\<close> and
  \<open>entity_fields\<close> here.\<close>

record CreateBulkEntitiesInput =
  entity_id :: string
  name :: string
  displayName :: string
  pluralDisplayName :: string
  description :: string
  customAttributes :: string
  entity_fields :: "CreateBulkFieldsInput list"

subsection \<open>Attribute serialization\<close>

text \<open>\<^verbatim>\<open>xs.join(sep)\<close> on strings.\<close>

fun joinWith :: "string \<Rightarrow> string list \<Rightarrow> string" where
  "joinWith sep [] = []"
| "joinWith sep [x] = x"
| "joinWith sep (x # y # ys) = x @ sep @ joinWith sep (y # ys)"

text \<open>Template interpolation \<^verbatim>\<open>${v}\<close> of a value: an object prints as
  \<^verbatim>\<open>[object Object]\<close>, an array as its elements joined by commas.\<close>

fun toStringValue :: "Value \<Rightarrow> string" where
  "toStringValue (VString s) = s"
| "toStringValue (VNumber s) = s"
| "toStringValue (VBoolean b) = (if b then ''true'' else ''false'')"
| "toStringValue (VFunc n ps) = ''[object Object]''"
| "toStringValue (VRelationArray xs) = ''[object Object]''"
| "toStringValue (VArray vs) = joinWith '','' (map toStringValue vs)"

text \<open>What one argument contributes to \<^verbatim>\<open>args.join(", ")\<close>: the callback returns
  \<^verbatim>\<open>undefined\<close> for an object that is neither an array node nor a key-value pair, and
  \<^verbatim>\<open>join\<close> prints \<^verbatim>\<open>undefined\<close> as the empty string.\<close>

fun prepareArg :: "ArgValue \<Rightarrow> string" where
  "prepareArg (Plain (VRelationArray xs)) = ''['' @ joinWith '', '' xs @ '']''"
| "prepareArg (KeyValue k v) = k @ '': '' @ toStringValue v"
| "prepareArg (Plain (VString s)) = s"
| "prepareArg (Plain (VNumber s)) = s"
| "prepareArg (Plain (VBoolean b)) = (if b then ''true'' else ''false'')"
| "prepareArg (Plain (VFunc n ps)) = []"
| "prepareArg (Plain (VArray vs)) = []"

definition prepareAttribute :: "Attribute \<Rightarrow> string" where
  "prepareAttribute attribute =
     (case args attribute of
        None \<Rightarrow>
          (if kind attribute = MODEL_TYPE_NAME then ''@@'' @ Attribute.name attribute
           else ''@'' @ Attribute.name attribute)
      | Some as \<Rightarrow>
          (if kind attribute = MODEL_TYPE_NAME then ''@@'' else ''@'') @
          Attribute.name attribute @ ''('' @ joinWith '', '' (map prepareArg as) @ '')'')"

fun prepareAttributes :: "Attribute list option \<Rightarrow> string list" where
  "prepareAttributes None = []"
| "prepareAttributes (Some as) = map prepareAttribute as"

fun attributesOf :: "Property list \<Rightarrow> Attribute list" where
  "attributesOf [] = []"
| "attributesOf (PAttribute a # ps) = a # attributesOf ps"
| "attributesOf (p # ps) = attributesOf ps"

subsection \<open>Prepare functions\<close>

text \<open>\<^verbatim>\<open>cuid()\<close> is the only source of fresh identifiers; the token it returns is an
  argument.\<close>

definition prepareEntity :: "Env \<Rightarrow> string \<Rightarrow> Model \<Rightarrow> CreateBulkEntitiesInput" where
  "prepareEntity E cuid model =
     \<lparr> entity_id = cuid,
       name = Model.name model,
       displayName = formatDisplayName E (Model.name model),
       pluralDisplayName = pluralize E (Model.name model),
       description = [],
       customAttributes =
         joinWith '' '' (prepareAttributes (Some (attributesOf (Model.properties model)))),
       entity_fields = [] \<rparr>"

definition createOneEntityFieldCommonProperties ::
  "Env \<Rightarrow> Field \<Rightarrow> EnumDataType \<Rightarrow> CreateBulkFieldsInput" where
  "createOneEntityFieldCommonProperties E field fieldDataType =
     \<lparr> CreateBulkFieldsInput.name = Field.name field,
       displayName = formatDisplayName E (Field.name field),
       dataType = fieldDataType,
       required = orFalse (optional field),
       unique =
         map_option (list_ex (\<lambda>attr. Attribute.name attr = ''unique'')) (attributes field),
       searchable = False,
       description = [],
       properties = NoProperties,
       customAttributes =
         joinWith '' ''
           (filter (\<lambda>attr. attr \<noteq> ''@default()'')
              (filterOutAmplicationAttributes E (prepareAttributes (attributes field)))),
       relatedFieldName = None,
       relatedFieldDisplayName = None,
       relatedFieldAllowMultipleSelection = None \<rparr>"

section \<open>The relation resolver\<close>

text \<open>
  Array methods whose callback can raise: \<^verbatim>\<open>some\<close> and \<^verbatim>\<open>find\<close> stop at the first
  element the callback accepts, so an element behind it is never looked at;
  \<^verbatim>\<open>filter\<close> visits every element.
\<close>

fun someE :: "('a \<Rightarrow> Error + bool) \<Rightarrow> 'a list \<Rightarrow> Error + bool" where
  "someE p [] = Inr False"
| "someE p (x # xs) =
     (case p x of Inl e \<Rightarrow> Inl e | Inr b \<Rightarrow> if b then Inr True else someE p xs)"

fun someOptE :: "('a \<Rightarrow> Error + bool) \<Rightarrow> 'a list option \<Rightarrow> Error + bool" where
  "someOptE p None = Inr False"
| "someOptE p (Some xs) = someE p xs"

fun findE :: "('a \<Rightarrow> Error + bool) \<Rightarrow> 'a list \<Rightarrow> Error + 'a option" where
  "findE p [] = Inr None"
| "findE p (x # xs) =
     (case p x of Inl e \<Rightarrow> Inl e | Inr b \<Rightarrow> if b then Inr (Some x) else findE p xs)"

fun filterE :: "('a \<Rightarrow> Error + bool) \<Rightarrow> 'a list \<Rightarrow> Error + 'a list" where
  "filterE p [] = Inr []"
| "filterE p (x # xs) =
     (case p x of
        Inl e \<Rightarrow> Inl e
      | Inr b \<Rightarrow>
          (case filterE p xs of
             Inl e \<Rightarrow> Inl e
           | Inr ys \<Rightarrow> Inr (if b then x # ys else ys)))"

text \<open>\<^verbatim>\<open>attr.args.some(q)\<close> and \<^verbatim>\<open>attr.args.find(q)\<close> read as a condition, without
  optional chaining: an attribute without an argument list raises a \<^verbatim>\<open>TypeError\<close>.\<close>

fun argsSome :: "(ArgValue \<Rightarrow> Error + bool) \<Rightarrow> ArgValue list option \<Rightarrow> Error + bool" where
  "argsSome q None = Inl TypeError"
| "argsSome q (Some as) = someE q as"

text \<open>\<^verbatim>\<open>attr.name === "relation" && attr.args.some(q)\<close>\<close>

definition relationWith :: "(ArgValue \<Rightarrow> Error + bool) \<Rightarrow> Attribute \<Rightarrow> Error + bool" where
  "relationWith q attr =
     (if Attribute.name attr = ''relation'' then argsSome q (args attr) else Inr False)"

text \<open>\<^verbatim>\<open>typeof arg.value === "string"\<close>\<close>

fun isStringArg :: "ArgValue \<Rightarrow> bool" where
  "isStringArg (Plain (VString s)) = True"
| "isStringArg v = False"

subsection \<open>Unannotated relation fields\<close>

definition isNotAnnotatedRelationField :: "Env \<Rightarrow> Schema \<Rightarrow> Field \<Rightarrow> Error + bool" where
  "isNotAnnotatedRelationField E schema field =
     (let relationAttribute =
            someOpt (\<lambda>attr. Attribute.name attr = ''relation'') (attributes field)
      in case someOptE (relationWith (\<lambda>arg. Inr (isStringArg arg))) (attributes field) of
           Inl e \<Rightarrow> Inl e
         | Inr hasRelationAttributeWithRelationName \<Rightarrow>
             (let fieldModelType =
                    find (\<lambda>modelItem. formatModelName E (Model.name modelItem) =
                                       formatFieldName E (fieldType field))
                      (modelsOf schema)
              in if (\<not> relationAttribute \<and> fieldModelType \<noteq> None) \<or>
                    (fieldModelType \<noteq> None \<and> hasRelationAttributeWithRelationName)
                 then Inr True else Inr False))"

subsection \<open>Foreign-key storage columns\<close>

text \<open>
  \<^verbatim>\<open>(arg.value as KeyValue).key === "fields" &&
  ((arg.value as KeyValue).value as RelationArray).args.find((argName) => argName === field.name)\<close>:
  only a key-value pair has a \<^verbatim>\<open>key\<close>; only an array node has \<^verbatim>\<open>args\<close>, so any other
  value under the key \<^verbatim>\<open>fields\<close> raises; \<^verbatim>\<open>find\<close> returns the name found, which is
  falsy when it is the empty string.
\<close>

fun listsFieldName :: "string \<Rightarrow> ArgValue \<Rightarrow> Error + bool" where
  "listsFieldName fieldName (KeyValue k (VRelationArray as)) =
     (if k = ''fields'' then Inr (fieldName \<in> set as \<and> fieldName \<noteq> []) else Inr False)"
| "listsFieldName fieldName (KeyValue k v) =
     (if k = ''fields'' then Inl TypeError else Inr False)"
| "listsFieldName fieldName (Plain v) = Inr False"

definition relationFiledWithReference :: "Model \<Rightarrow> Field \<Rightarrow> Error + Field list" where
  "relationFiledWithReference model field =
     filterE (\<lambda>modelField.
                someOptE (relationWith (listsFieldName (Field.name field)))
                  (attributes modelField))
       (fieldsOf (Model.properties model))"

definition moreThanOneRelationField :: "Model \<Rightarrow> Field \<Rightarrow> string" where
  "moreThanOneRelationField model field =
     ''Field '' @ Field.name field @ '' on model '' @ Model.name model @
     '' has more than one relation field''"

text \<open>The result is paired with the lines the function sends to \<^verbatim>\<open>logger.error\<close>.\<close>

definition isFkFieldOfARelation ::
  "Schema \<Rightarrow> Model \<Rightarrow> Field \<Rightarrow> Error + (bool \<times> string list)" where
  "isFkFieldOfARelation schema model field =
     (case relationFiledWithReference model field of
        Inl e \<Rightarrow> Inl e
      | Inr rs \<Rightarrow>
          Inr (length rs = 1,
               if length rs > 1
               then [moreThanOneRelationField model field, moreThanOneRelationField model field]
               else []))"

subsection \<open>Remote field pairing\<close>

text \<open>
  The callback of \<^verbatim>\<open>field.attributes?.find\<close> assigns \<^verbatim>\<open>relationAttributeName\<close> and
  returns nothing, so every attribute is visited and the last assignment stays:
  \<^verbatim>\<open>false\<close> for an attribute that is not a relation, \<^verbatim>\<open>undefined\<close> for a relation
  without a string argument (both \<open>None\<close> here), else the first string argument.
\<close>

fun firstStringArg :: "ArgValue list \<Rightarrow> string option" where
  "firstStringArg [] = None"
| "firstStringArg (Plain (VString s) # as) = Some s"
| "firstStringArg (a # as) = firstStringArg as"

fun relationAttributeNameLoop :: "string option \<Rightarrow> Attribute list \<Rightarrow> Error + string option" where
  "relationAttributeNameLoop acc [] = Inr acc"
| "relationAttributeNameLoop acc (attr # attrs) =
     (if Attribute.name attr = ''relation''
      then (case args attr of
              None \<Rightarrow> Inl TypeError
            | Some as \<Rightarrow> relationAttributeNameLoop (firstStringArg as) attrs)
      else relationAttributeNameLoop None attrs)"

fun relationAttributeName :: "Field \<Rightarrow> Error + string option" where
  "relationAttributeName field =
     (case attributes field of
        None \<Rightarrow> Inr None
      | Some attrs \<Rightarrow> relationAttributeNameLoop None attrs)"

text \<open>\<^verbatim>\<open>if (relationAttributeName)\<close>: the empty string is falsy.\<close>

fun truthyName :: "string option \<Rightarrow> bool" where
  "truthyName None = False"
| "truthyName (Some s) = (s \<noteq> [])"

definition namedRemoteField :: "string \<Rightarrow> Field list \<Rightarrow> Error + Field option" where
  "namedRemoteField relationName remoteModelFields =
     findE (\<lambda>field.
              someOptE (relationWith (\<lambda>arg. Inr (arg = Plain (VString relationName))))
                (attributes field))
       remoteModelFields"

definition backReferenceFields :: "Env \<Rightarrow> Model \<Rightarrow> Field list \<Rightarrow> Field list" where
  "backReferenceFields E model remoteModelFields =
     filter (\<lambda>remoteField.
               formatModelName E (fieldType remoteField) = formatModelName E (Model.name model) \<and>
               \<not> someOpt (\<lambda>attr. Attribute.name attr = ''relation'') (attributes remoteField))
       remoteModelFields"

text \<open>The declared result type allows \<^verbatim>\<open>undefined\<close> (the outer option), which no path
  returns; the remote field of the returned pair is \<^verbatim>\<open>undefined\<close> (the inner option)
  when the named search finds nothing.\<close>

definition findRemoteRelatedModelAndField ::
  "Env \<Rightarrow> Schema \<Rightarrow> Model \<Rightarrow> Field \<Rightarrow> Error + (Model \<times> Field option) option" where
  "findRemoteRelatedModelAndField E schema model field =
     (case relationAttributeName field of
        Inl e \<Rightarrow> Inl e
      | Inr relationName \<Rightarrow>
          (case find (\<lambda>item. formatModelName E (Model.name item) =
                              formatModelName E (fieldType field)) (modelsOf schema) of
             None \<Rightarrow> Inl (ModelNotFound (fieldType field))
           | Some remoteModel \<Rightarrow>
               (let remoteModelFields = fieldsOf (Model.properties remoteModel)
                in if truthyName relationName
                   then (case namedRemoteField (case relationName of Some n \<Rightarrow> n | None \<Rightarrow> [])
                                 remoteModelFields of
                           Inl e \<Rightarrow> Inl e
                         | Inr remoteField \<Rightarrow> Inr (Some (remoteModel, remoteField)))
                   else (let remoteFields = backReferenceFields E model remoteModelFields
                         in if length remoteFields > 1
                            then Inl (MultipleFieldsFound (Model.name remoteModel)
                                        (Model.name model))
                            else (case remoteFields of
                                    [remoteField] \<Rightarrow>
                                      Inr (Some (remoteModel, Some remoteField))
                                  | others \<Rightarrow>
                                      Inl (NoFieldFound (Model.name remoteModel)
                                             (Model.name model)))))))"

section \<open>Conversion\<close>

text \<open>
  Every converter looks the entity of the model up by name in \<^verbatim>\<open>preparedEntities\<close>,
  pushes the new descriptor onto the \<^verbatim>\<open>fields\<close> of that object and returns it. The
  object is shared with the list, so the model returns the entity together with the list
  in which the first entity of that name is replaced by it.
\<close>

fun replaceFirst ::
  "string \<Rightarrow> CreateBulkEntitiesInput \<Rightarrow> CreateBulkEntitiesInput list \<Rightarrow>
   CreateBulkEntitiesInput list" where
  "replaceFirst n entity' [] = []"
| "replaceFirst n entity' (e # es) =
     (if CreateBulkEntitiesInput.name e = n then entity' # es
      else e # replaceFirst n entity' es)"

definition pushField ::
  "CreateBulkEntitiesInput \<Rightarrow> CreateBulkFieldsInput \<Rightarrow> CreateBulkEntitiesInput list \<Rightarrow>
   CreateBulkEntitiesInput \<times> CreateBulkEntitiesInput list" where
  "pushField entity entityField preparedEntities =
     (let entity' = entity\<lparr> entity_fields := entity_fields entity @ [entityField] \<rparr>
      in (entity', replaceFirst (CreateBulkEntitiesInput.name entity) entity' preparedEntities))"

definition findEntity ::
  "string \<Rightarrow> CreateBulkEntitiesInput list \<Rightarrow> CreateBulkEntitiesInput option" where
  "findEntity n preparedEntities =
     find (\<lambda>entity. CreateBulkEntitiesInput.name entity = n) preparedEntities"

type_synonym Converter =
  "Env \<Rightarrow> Schema \<Rightarrow> Model \<Rightarrow> Field \<Rightarrow> CreateBulkEntitiesInput list \<Rightarrow>
   Error + (CreateBulkEntitiesInput \<times> CreateBulkEntitiesInput list)"

definition convertPrismaBooleanToEntityField :: Converter where
  "convertPrismaBooleanToEntityField E schema model field preparedEntities =
     (case findEntity (Model.name model) preparedEntities of
        None \<Rightarrow> Inl (EntityNotFound (Model.name model))
      | Some entity \<Rightarrow>
          Inr (pushField entity (createOneEntityFieldCommonProperties E field Boolean)
                 preparedEntities))"

definition convertPrismaCreatedAtToEntityField :: Converter where
  "convertPrismaCreatedAtToEntityField E schema model field preparedEntities =
     (case findEntity (Model.name model) preparedEntities of
        None \<Rightarrow> Inl (EntityNotFound (Model.name model))
      | Some entity \<Rightarrow>
          Inr (pushField entity (createOneEntityFieldCommonProperties E field CreatedAt)
                 preparedEntities))"

definition convertPrismaUpdatedAtToEntityField :: Converter where
  "convertPrismaUpdatedAtToEntityField E schema model field preparedEntities =
     (case findEntity (Model.name model) preparedEntities of
        None \<Rightarrow> Inl (EntityNotFound (Model.name model))
      | Some entity \<Rightarrow>
          Inr (pushField entity (createOneEntityFieldCommonProperties E field UpdatedAt)
                 preparedEntities))"

definition convertPrismaDateTimeToEntityField :: Converter where
  "convertPrismaDateTimeToEntityField E schema model field preparedEntities =
     (case findEntity (Model.name model) preparedEntities of
        None \<Rightarrow> Inl (EntityNotFound (Model.name model))
      | Some entity \<Rightarrow>
          Inr (pushField entity
                 ((createOneEntityFieldCommonProperties E field DateTime)
                    \<lparr> properties := DateTimeProperties ''localTime'' False \<rparr>)
                 preparedEntities))"

definition convertPrismaDecimalNumberToEntityField :: Converter where
  "convertPrismaDecimalNumberToEntityField E schema model field preparedEntities =
     (case findEntity (Model.name model) preparedEntities of
        None \<Rightarrow> Inl (EntityNotFound (Model.name model))
      | Some entity \<Rightarrow>
          Inr (pushField entity
                 ((createOneEntityFieldCommonProperties E field DecimalNumber)
                    \<lparr> properties := DecimalNumberProperties 0 99999999999 8 \<rparr>)
                 preparedEntities))"

definition convertPrismaWholeNumberToEntityField :: Converter where
  "convertPrismaWholeNumberToEntityField E schema model field preparedEntities =
     (case findEntity (Model.name model) preparedEntities of
        None \<Rightarrow> Inl (EntityNotFound (Model.name model))
      | Some entity \<Rightarrow>
          Inr (pushField entity
                 ((createOneEntityFieldCommonProperties E field WholeNumber)
                    \<lparr> properties := WholeNumberProperties 0 99999999999 \<rparr>)
                 preparedEntities))"

definition convertPrismaSingleLineTextToEntityField :: Converter where
  "convertPrismaSingleLineTextToEntityField E schema model field preparedEntities =
     (case findEntity (Model.name model) preparedEntities of
        None \<Rightarrow> Inl (EntityNotFound (Model.name model))
      | Some entity \<Rightarrow>
          Inr (pushField entity
                 ((createOneEntityFieldCommonProperties E field SingleLineText)
                    \<lparr> properties := SingleLineTextProperties 256 \<rparr>)
                 preparedEntities))"

definition convertPrismaJsonToEntityField :: Converter where
  "convertPrismaJsonToEntityField E schema model field preparedEntities =
     (case findEntity (Model.name model) preparedEntities of
        None \<Rightarrow> Inl (EntityNotFound (Model.name model))
      | Some entity \<Rightarrow>
          Inr (pushField entity (createOneEntityFieldCommonProperties E field Json)
                 preparedEntities))"

text \<open>\<^verbatim>\<open>(defaultIdAttribute.args[0].value as Func).name || "cuid"\<close>: reading
  \<^verbatim>\<open>args[0].value\<close> of an empty argument list raises; a value without a \<^verbatim>\<open>name\<close>, or
  with the empty name, gives \<^verbatim>\<open>"cuid"\<close>.\<close>

fun funcNameOrCuid :: "ArgValue \<Rightarrow> string" where
  "funcNameOrCuid (Plain (VFunc n ps)) = (if n = [] then ''cuid'' else n)"
| "funcNameOrCuid v = ''cuid''"

definition idProperties :: "Env \<Rightarrow> Field \<Rightarrow> Error + Properties" where
  "idProperties E field =
     (case findOpt (\<lambda>attr. Attribute.name attr = ''default'') (attributes field) of
        None \<Rightarrow> Inr (IdProperties (idTypePropertyMapByFieldType E (fieldType field)))
      | Some defaultIdAttribute \<Rightarrow>
          (case args defaultIdAttribute of
             None \<Rightarrow> Inr NoProperties
           | Some [] \<Rightarrow> Inl TypeError
           | Some (arg # as) \<Rightarrow> Inr (IdProperties (idTypePropertyMap E (funcNameOrCuid arg)))))"

definition convertPrismaIdToEntityField :: Converter where
  "convertPrismaIdToEntityField E schema model field preparedEntities =
     (case findEntity (Model.name model) preparedEntities of
        None \<Rightarrow> Inl (EntityNotFound (Model.name model))
      | Some entity \<Rightarrow>
          (case idProperties E field of
             Inl e \<Rightarrow> Inl e
           | Inr props \<Rightarrow>
               Inr (pushField entity
                      ((createOneEntityFieldCommonProperties E field DataType_Id)
                         \<lparr> properties := props \<rparr>)
                      preparedEntities)))"

definition enumOptions :: "Enum \<Rightarrow> (string \<times> string) list" where
  "enumOptions enumOfTheField =
     map (\<lambda>enumerator. (Enumerator.name enumerator, Enumerator.name enumerator))
       (enumerators enumOfTheField)"

definition convertPrismaOptionSetToEntityField :: Converter where
  "convertPrismaOptionSetToEntityField E schema model field preparedEntities =
     (case findEntity (Model.name model) preparedEntities of
        None \<Rightarrow> Inl (EntityNotFound (Model.name model))
      | Some entity \<Rightarrow>
          (case find (\<lambda>item. formatModelName E (Enum.name item) =
                              formatModelName E (fieldType field)) (enumsOf schema) of
             None \<Rightarrow> Inl (EnumNotFound (Field.name field))
           | Some enumOfTheField \<Rightarrow>
               Inr (pushField entity
                      ((createOneEntityFieldCommonProperties E field OptionSet)
                         \<lparr> properties := OptionSetProperties (enumOptions enumOfTheField) \<rparr>)
                      preparedEntities)))"

definition convertPrismaMultiSelectOptionSetToEntityField :: Converter where
  "convertPrismaMultiSelectOptionSetToEntityField E schema model field preparedEntities =
     (case findEntity (Model.name model) preparedEntities of
        None \<Rightarrow> Inl (EntityNotFound (Model.name model))
      | Some entity \<Rightarrow>
          (case find (\<lambda>item. Enum.name item = Field.name field) (enumsOf schema) of
             None \<Rightarrow> Inl (EnumNotFound (Field.name field))
           | Some enumOfTheField \<Rightarrow>
               Inr (pushField entity
                      ((createOneEntityFieldCommonProperties E field MultiSelectOptionSet)
                         \<lparr> properties := OptionSetProperties (enumOptions enumOfTheField) \<rparr>)
                      preparedEntities)))"

text \<open>
  The lookup converter pairs the field with its remote field. The test
  \<^verbatim>\<open>!remoteModelAndField\<close> guards the \<^verbatim>\<open>undefined\<close> result; building the common
  properties of an \<^verbatim>\<open>undefined\<close> remote field reads \<^verbatim>\<open>field.name\<close> of
  \<^verbatim>\<open>undefined\<close>, and so does \<^verbatim>\<open>relatedEntity.id\<close> when no prepared entity has the
  name of the remote model.
\<close>

definition convertPrismaLookupToEntityField :: Converter where
  "convertPrismaLookupToEntityField E schema model field preparedEntities =
     (case findEntity (Model.name model) preparedEntities of
        None \<Rightarrow> Inl (EntityNotFound (Model.name model))
      | Some entity \<Rightarrow>
          (let entityField = createOneEntityFieldCommonProperties E field Lookup
           in case findRemoteRelatedModelAndField E schema model field of
                Inl e \<Rightarrow> Inl e
              | Inr None \<Rightarrow>
                  Inl (RemoteModelAndFieldNotFound (Model.name model) (Field.name field))
              | Inr (Some (remoteModel, None)) \<Rightarrow> Inl TypeError
              | Inr (Some (remoteModel, Some remoteField)) \<Rightarrow>
                  (let relatedField = createOneEntityFieldCommonProperties E remoteField Lookup
                   in case findEntity (Model.name remoteModel) preparedEntities of
                        None \<Rightarrow> Inl TypeError
                      | Some relatedEntity \<Rightarrow>
                          Inr (pushField entity
                                 (entityField
                                    \<lparr> properties :=
                                        LookupProperties (entity_id relatedEntity)
                                          (orFalse (array field)),
                                      relatedFieldName :=
                                        Some (CreateBulkFieldsInput.name relatedField),
                                      relatedFieldDisplayName :=
                                        Some (CreateBulkFieldsInput.displayName relatedField),
                                      relatedFieldAllowMultipleSelection :=
                                        Some (orFalse (array remoteField)) \<rparr>)
                                 preparedEntities))))"

section \<open>The entity and field builder\<close>

subsection \<open>Field data type checks\<close>

definition isSingleLineTextField :: "Env \<Rightarrow> Schema \<Rightarrow> Field \<Rightarrow> Error + bool" where
  "isSingleLineTextField E schema field =
     map_sum (\<lambda>e. e) (\<lambda>d. d = SingleLineText) (resolveFieldDataType E schema field)"

definition isWholeNumberField :: "Env \<Rightarrow> Schema \<Rightarrow> Field \<Rightarrow> Error + bool" where
  "isWholeNumberField E schema field =
     map_sum (\<lambda>e. e) (\<lambda>d. d = WholeNumber) (resolveFieldDataType E schema field)"

definition isDecimalNumberField :: "Env \<Rightarrow> Schema \<Rightarrow> Field \<Rightarrow> Error + bool" where
  "isDecimalNumberField E schema field =
     map_sum (\<lambda>e. e) (\<lambda>d. d = DecimalNumber) (resolveFieldDataType E schema field)"

definition isBooleanField :: "Env \<Rightarrow> Schema \<Rightarrow> Field \<Rightarrow> Error + bool" where
  "isBooleanField E schema field =
     map_sum (\<lambda>e. e) (\<lambda>d. d = Boolean) (resolveFieldDataType E schema field)"

definition isCreatedAtField :: "Env \<Rightarrow> Schema \<Rightarrow> Field \<Rightarrow> Error + bool" where
  "isCreatedAtField E schema field =
     map_sum (\<lambda>e. e) (\<lambda>d. d = CreatedAt) (resolveFieldDataType E schema field)"

definition isUpdatedAtField :: "Env \<Rightarrow> Schema \<Rightarrow> Field \<Rightarrow> Error + bool" where
  "isUpdatedAtField E schema field =
     map_sum (\<lambda>e. e) (\<lambda>d. d = UpdatedAt) (resolveFieldDataType E schema field)"

definition isDateTimeField :: "Env \<Rightarrow> Schema \<Rightarrow> Field \<Rightarrow> Error + bool" where
  "isDateTimeField E schema field =
     map_sum (\<lambda>e. e) (\<lambda>d. d = DateTime) (resolveFieldDataType E schema field)"

definition isJsonField :: "Env \<Rightarrow> Schema \<Rightarrow> Field \<Rightarrow> Error + bool" where
  "isJsonField E schema field =
     map_sum (\<lambda>e. e) (\<lambda>d. d = Json) (resolveFieldDataType E schema field)"

definition isIdField :: "Env \<Rightarrow> Schema \<Rightarrow> Field \<Rightarrow> Error + bool" where
  "isIdField E schema field =
     map_sum (\<lambda>e. e) (\<lambda>d. d = DataType_Id) (resolveFieldDataType E schema field)"

definition isLookupField :: "Env \<Rightarrow> Schema \<Rightarrow> Field \<Rightarrow> Error + bool" where
  "isLookupField E schema field =
     map_sum (\<lambda>e. e) (\<lambda>d. d = Lookup) (resolveFieldDataType E schema field)"

definition isOptionSetField :: "Env \<Rightarrow> Schema \<Rightarrow> Field \<Rightarrow> Error + bool" where
  "isOptionSetField E schema field =
     map_sum (\<lambda>e. e) (\<lambda>d. d = OptionSet) (resolveFieldDataType E schema field)"

definition isMultiSelectOptionSetField :: "Env \<Rightarrow> Schema \<Rightarrow> Field \<Rightarrow> Error + bool" where
  "isMultiSelectOptionSetField E schema field =
     map_sum (\<lambda>e. e) (\<lambda>d. d = MultiSelectOptionSet) (resolveFieldDataType E schema field)"

subsection \<open>Walking the prepared schema\<close>

text \<open>A \<^verbatim>\<open>for ... of\<close> loop over a list whose body can raise: the state is threaded
  through and the first error ends the loop.\<close>

fun forEachE :: "('a \<Rightarrow> 's \<Rightarrow> Error + 's) \<Rightarrow> 'a list \<Rightarrow> 's \<Rightarrow> Error + 's" where
  "forEachE body [] s = Inr s"
| "forEachE body (x # xs) s =
     (case body x s of Inl e \<Rightarrow> Inl e | Inr s' \<Rightarrow> forEachE body xs s')"

text \<open>\<^verbatim>\<open>if (this.isXField(schema, field)) { this.convertPrismaXToEntityField(...) }\<close>:
  the test can raise, the converter can raise, and the entity the converter returns is
  dropped.\<close>

definition whenField ::
  "Error + bool \<Rightarrow>
   (CreateBulkEntitiesInput list \<Rightarrow>
      Error + (CreateBulkEntitiesInput \<times> CreateBulkEntitiesInput list)) \<Rightarrow>
   CreateBulkEntitiesInput list \<Rightarrow> Error + CreateBulkEntitiesInput list" where
  "whenField test convert preparedEntities =
     (case test of
        Inl e \<Rightarrow> Inl e
      | Inr b \<Rightarrow>
          if b then map_sum (\<lambda>e. e) snd (convert preparedEntities) else Inr preparedEntities)"

definition thenE :: "Error + 'a \<Rightarrow> ('a \<Rightarrow> Error + 'b) \<Rightarrow> Error + 'b" where
  "thenE r k = (case r of Inl e \<Rightarrow> Inl e | Inr x \<Rightarrow> k x)"

text \<open>The twelve tests of the loop body, in the order of the source.\<close>

definition convertClassifiedField ::
  "Env \<Rightarrow> Schema \<Rightarrow> Model \<Rightarrow> Field \<Rightarrow> CreateBulkEntitiesInput list \<Rightarrow>
   Error + CreateBulkEntitiesInput list" where
  "convertClassifiedField E schema model field preparedEntities =
     thenE (whenField (isBooleanField E schema field)
              (convertPrismaBooleanToEntityField E schema model field) preparedEntities)
    (\<lambda>p1. thenE (whenField (isCreatedAtField E schema field)
              (convertPrismaCreatedAtToEntityField E schema model field) p1)
    (\<lambda>p2. thenE (whenField (isUpdatedAtField E schema field)
              (convertPrismaUpdatedAtToEntityField E schema model field) p2)
    (\<lambda>p3. thenE (whenField (isDateTimeField E schema field)
              (convertPrismaDateTimeToEntityField E schema model field) p3)
    (\<lambda>p4. thenE (whenField (isDecimalNumberField E schema field)
              (convertPrismaDecimalNumberToEntityField E schema model field) p4)
    (\<lambda>p5. thenE (whenField (isWholeNumberField E schema field)
              (convertPrismaWholeNumberToEntityField E schema model field) p5)
    (\<lambda>p6. thenE (whenField (isSingleLineTextField E schema field)
              (convertPrismaSingleLineTextToEntityField E schema model field) p6)
    (\<lambda>p7. thenE (whenField (isJsonField E schema field)
              (convertPrismaJsonToEntityField E schema model field) p7)
    (\<lambda>p8. thenE (whenField (isIdField E schema field)
              (convertPrismaIdToEntityField E schema model field) p8)
    (\<lambda>p9. thenE (whenField (isOptionSetField E schema field)
              (convertPrismaOptionSetToEntityField E schema model field) p9)
    (\<lambda>p10. thenE (whenField (isMultiSelectOptionSetField E schema field)
              (convertPrismaMultiSelectOptionSetToEntityField E schema model field) p10)
    (\<lambda>p11. whenField (isLookupField E schema field)
              (convertPrismaLookupToEntityField E schema model field) p11)))))))))))"

text \<open>The loop body: the two skips, then the twelve tests. The log lines of the skips
  and of \<^verbatim>\<open>isFkFieldOfARelation\<close> are not part of the result and are dropped here.\<close>

definition convertField ::
  "Env \<Rightarrow> Schema \<Rightarrow> Model \<Rightarrow> Field \<Rightarrow> CreateBulkEntitiesInput list \<Rightarrow>
   Error + CreateBulkEntitiesInput list" where
  "convertField E schema model field preparedEntities =
     (case isFkFieldOfARelation schema model field of
        Inl e \<Rightarrow> Inl e
      | Inr (isFk, logged) \<Rightarrow>
          if isFk then Inr preparedEntities
          else (case isNotAnnotatedRelationField E schema field of
                  Inl e \<Rightarrow> Inl e
                | Inr notAnnotated \<Rightarrow>
                    if notAnnotated then Inr preparedEntities
                    else convertClassifiedField E schema model field preparedEntities))"

text \<open>\<^verbatim>\<open>modelList.map((model) => this.prepareEntity(model))\<close> calls \<^verbatim>\<open>cuid()\<close> once
  per model; \<open>cuid i\<close> is the token of the \<open>i\<close>-th call of the run.\<close>

fun prepareEntities ::
  "Env \<Rightarrow> (nat \<Rightarrow> string) \<Rightarrow> nat \<Rightarrow> Model list \<Rightarrow> CreateBulkEntitiesInput list" where
  "prepareEntities E cuid i [] = []"
| "prepareEntities E cuid i (model # models) =
     prepareEntity E (cuid i) model # prepareEntities E cuid (Suc i) models"

definition convertPreparedSchemaForImportObjects ::
  "Env \<Rightarrow> (nat \<Rightarrow> string) \<Rightarrow> Schema \<Rightarrow> Error + CreateBulkEntitiesInput list" where
  "convertPreparedSchemaForImportObjects E cuid schema =
     (let modelList = modelsOf schema;
          preparedEntities = prepareEntities E cuid 0 modelList
      in forEachE
           (\<lambda>model. forEachE (convertField E schema model) (fieldsOf (Model.properties model)))
           modelList preparedEntities)"

text \<open>The converter that belongs to a category: what the twelve tests of the loop body
  select.\<close>

fun converterFor :: "EnumDataType \<Rightarrow> Converter" where
  "converterFor Boolean = convertPrismaBooleanToEntityField"
| "converterFor CreatedAt = convertPrismaCreatedAtToEntityField"
| "converterFor UpdatedAt = convertPrismaUpdatedAtToEntityField"
| "converterFor DateTime = convertPrismaDateTimeToEntityField"
| "converterFor DecimalNumber = convertPrismaDecimalNumberToEntityField"
| "converterFor WholeNumber = convertPrismaWholeNumberToEntityField"
| "converterFor SingleLineText = convertPrismaSingleLineTextToEntityField"
| "converterFor Json = convertPrismaJsonToEntityField"
| "converterFor DataType_Id = convertPrismaIdToEntityField"
| "converterFor OptionSet = convertPrismaOptionSetToEntityField"
| "converterFor MultiSelectOptionSet = convertPrismaMultiSelectOptionSetToEntityField"
| "converterFor Lookup = convertPrismaLookupToEntityField"

section \<open>The naming normalizer\<close>

subsection \<open>The schema builder\<close>

text \<open>
  The operations edit the tree through the builder of the parser library, which is not
  part of the service. What the service relies on: \<^verbatim>\<open>builder.model(n)\<close> selects the last
  model block named \<open>n\<close> (and appends an empty one when there is none),
  \<^verbatim>\<open>.field(f)\<close> selects the first field named \<open>f\<close> of the selected model and the chain
  fails when there is none, \<^verbatim>\<open>.blockAttribute\<close> and \<^verbatim>\<open>.attribute\<close> append an attribute to
  the selected node, and \<^verbatim>\<open>.then(cb)\<close> applies \<open>cb\<close> to it. \<^verbatim>\<open>builder.getSchema()\<close>
  is the tree itself, so every edit is seen by the code that walks the tree.
\<close>

fun hasModelNamed :: "string \<Rightarrow> Schema \<Rightarrow> bool" where
  "hasModelNamed n [] = False"
| "hasModelNamed n (BModel m # bs) = (Model.name m = n \<or> hasModelNamed n bs)"
| "hasModelNamed n (b # bs) = hasModelNamed n bs"

fun updateLastModel :: "string \<Rightarrow> (Model \<Rightarrow> Error + Model) \<Rightarrow> Schema \<Rightarrow> Error + Schema" where
  "updateLastModel n f [] =
     map_sum (\<lambda>e. e) (\<lambda>m. [BModel m]) (f \<lparr> Model.name = n, Model.properties = [] \<rparr>)"
| "updateLastModel n f (BModel m # bs) =
     (if Model.name m = n \<and> \<not> hasModelNamed n bs
      then map_sum (\<lambda>e. e) (\<lambda>m'. BModel m' # bs) (f m)
      else map_sum (\<lambda>e. e) (\<lambda>bs'. BModel m # bs') (updateLastModel n f bs))"
| "updateLastModel n f (b # bs) =
     map_sum (\<lambda>e. e) (\<lambda>bs'. b # bs') (updateLastModel n f bs)"

fun updateFirstField :: "string \<Rightarrow> (Field \<Rightarrow> Field) \<Rightarrow> Property list \<Rightarrow> Error + Property list" where
  "updateFirstField n f [] = Inl BuilderError"
| "updateFirstField n f (PField g # ps) =
     (if Field.name g = n then Inr (PField (f g) # ps)
      else map_sum (\<lambda>e. e) (\<lambda>ps'. PField g # ps') (updateFirstField n f ps))"
| "updateFirstField n f (p # ps) =
     map_sum (\<lambda>e. e) (\<lambda>ps'. p # ps') (updateFirstField n f ps)"

text \<open>\<^verbatim>\<open>builder.model(n).then(cb)\<close>\<close>

definition builderModelThen :: "string \<Rightarrow> (Model \<Rightarrow> Model) \<Rightarrow> Schema \<Rightarrow> Error + Schema" where
  "builderModelThen n cb schema = updateLastModel n (\<lambda>m. Inr (cb m)) schema"

text \<open>\<^verbatim>\<open>builder.model(n).blockAttribute(a, v)\<close> with a string \<open>v\<close>\<close>

definition builderBlockAttribute :: "string \<Rightarrow> string \<Rightarrow> string \<Rightarrow> Schema \<Rightarrow> Error + Schema" where
  "builderBlockAttribute n a v schema =
     builderModelThen n
       (\<lambda>m. m\<lparr> Model.properties :=
                  Model.properties m @
                  [PAttribute \<lparr> kind = ''object'', name = a,
                                args = Some [Plain (VString (quoted v))] \<rparr>] \<rparr>)
       schema"

text \<open>\<^verbatim>\<open>builder.model(n).field(f).then(cb)\<close>\<close>

definition builderFieldThen ::
  "string \<Rightarrow> string \<Rightarrow> (Field \<Rightarrow> Field) \<Rightarrow> Schema \<Rightarrow> Error + Schema" where
  "builderFieldThen n f cb schema =
     updateLastModel n
       (\<lambda>m. map_sum (\<lambda>e. e) (\<lambda>ps. m\<lparr> Model.properties := ps \<rparr>)
               (updateFirstField f cb (Model.properties m)))
       schema"

text \<open>\<^verbatim>\<open>builder.model(n).field(f).attribute(a, vs)\<close> with a list \<open>vs\<close> of strings\<close>

definition builderFieldAttribute ::
  "string \<Rightarrow> string \<Rightarrow> string \<Rightarrow> string list \<Rightarrow> Schema \<Rightarrow> Error + Schema" where
  "builderFieldAttribute n f a vs schema =
     builderFieldThen n f
       (\<lambda>g. g\<lparr> attributes :=
                  Some (listOf (attributes g) @
                        [\<lparr> kind = ''field'', name = a,
                           args = Some (map (\<lambda>v. Plain (VString v)) vs) \<rparr>]) \<rparr>)
       schema"

subsection \<open>Walking a tree that is edited on the way\<close>

text \<open>
  Each operation filters the models, and per model the fields, into a fresh array and
  walks it; the elements are the nodes of the tree, so a node edited earlier in the walk
  is read in its edited state. No operation adds or removes a node that is walked, so a
  node is its position: the walk runs over the positions taken when the array was built
  and reads the tree of the moment at each.
\<close>

definition nthOpt :: "'a list \<Rightarrow> nat \<Rightarrow> 'a option" where
  "nthOpt xs i = (if i < length xs then Some (xs ! i) else None)"

definition modelAt :: "Schema \<Rightarrow> nat \<Rightarrow> Model option" where
  "modelAt schema i = (case nthOpt schema i of Some (BModel m) \<Rightarrow> Some m | other \<Rightarrow> None)"

definition fieldAt :: "Model \<Rightarrow> nat \<Rightarrow> Field option" where
  "fieldAt model j =
     (case nthOpt (Model.properties model) j of Some (PField f) \<Rightarrow> Some f | other \<Rightarrow> None)"

definition fieldPositions :: "(Field \<Rightarrow> bool) \<Rightarrow> Model \<Rightarrow> nat list" where
  "fieldPositions keep model =
     filter (\<lambda>j. case fieldAt model j of Some f \<Rightarrow> keep f | None \<Rightarrow> False)
       [0..<length (Model.properties model)]"

definition forEachModel ::
  "(Schema \<Rightarrow> Model \<Rightarrow> Error + Schema) \<Rightarrow> Schema \<Rightarrow> Error + Schema" where
  "forEachModel body schema =
     forEachE (\<lambda>i s. case modelAt s i of None \<Rightarrow> Inr s | Some model \<Rightarrow> body s model)
       [0..<length schema] schema"

definition forEachModelField ::
  "(Field \<Rightarrow> bool) \<Rightarrow> (Schema \<Rightarrow> Model \<Rightarrow> Field \<Rightarrow> Error + Schema) \<Rightarrow> Schema \<Rightarrow>
   Error + Schema" where
  "forEachModelField keep body schema =
     forEachE
       (\<lambda>i s. case modelAt s i of
                 None \<Rightarrow> Inr s
               | Some model0 \<Rightarrow>
                   forEachE
                     (\<lambda>j s'. case modelAt s' i of
                                None \<Rightarrow> Inr s'
                              | Some model \<Rightarrow>
                                  (case fieldAt model j of
                                     None \<Rightarrow> Inr s'
                                   | Some field \<Rightarrow> body s' model field))
                     (fieldPositions keep model0) s)
       [0..<length schema] schema"

subsection \<open>The four operations\<close>

text \<open>\<^verbatim>\<open>name.includes("_")\<close> and \<^verbatim>\<open>/^[A-Z]/.test(name)\<close>\<close>

definition includesUnderscore :: "string \<Rightarrow> bool" where
  "includesUnderscore s = (CHR ''_'' \<in> set s)"

fun startsUpperCase :: "string \<Rightarrow> bool" where
  "startsUpperCase [] = False"
| "startsUpperCase (c # cs) = (c \<in> set ''ABCDEFGHIJKLMNOPQRSTUVWXYZ'')"

definition handleModelNamesRenaming :: "Env \<Rightarrow> Schema \<Rightarrow> Error + Schema" where
  "handleModelNamesRenaming E schema =
     forEachModel
       (\<lambda>s model.
          (let isInvalidModelName =
                 isPlural E (Model.name model) \<or>
                 includesUnderscore (Model.name model) \<or>
                 \<not> startsUpperCase (Model.name model) \<or>
                 isReservedName E (trim E (toLowerCase E (Model.name model)))
           in if isInvalidModelName
              then thenE (builderBlockAttribute (Model.name model) ''map'' (Model.name model) s)
                     (builderModelThen (Model.name model)
                        (\<lambda>m. m\<lparr> Model.name := formatModelName E (Model.name m) \<rparr>))
              else Inr s))
       schema"

definition handleFieldNamesRenaming :: "Env \<Rightarrow> Schema \<Rightarrow> Error + Schema" where
  "handleFieldNamesRenaming E schema =
     forEachModelField
       (\<lambda>property. \<not> someOpt (\<lambda>attr. Attribute.name attr = ID_ATTRIBUTE_NAME)
                        (attributes property))
       (\<lambda>s model field.
          thenE (isFkFieldOfARelation s model field)
            (\<lambda>(isFkHolder, logged).
               (let isInvalidFieldName =
                      includesUnderscore (Field.name field) \<or>
                      isReservedName E (trim E (toLowerCase E (Field.name field)))
                in thenE (resolveFieldDataType E s field)
                     (\<lambda>d. (let isEnumFieldType = (d = OptionSet \<or> d = MultiSelectOptionSet)
                            in if isInvalidFieldName \<and> \<not> isEnumFieldType \<and> \<not> isFkHolder
                               then thenE (builderFieldAttribute (Model.name model)
                                             (Field.name field) ''map''
                                             [quoted (Field.name field)] s)
                                      (builderFieldThen (Model.name model) (Field.name field)
                                         (\<lambda>g. g\<lparr> Field.name :=
                                                    formatFieldName E (Field.name g) \<rparr>))
                               else Inr s)))))
       schema"

text \<open>\<^verbatim>\<open>a || b\<close> on tests that can raise: \<open>b\<close> is evaluated only when \<open>a\<close> is false.\<close>

definition orElseE :: "Error + bool \<Rightarrow> Error + bool \<Rightarrow> Error + bool" where
  "orElseE a b = (case a of Inl e \<Rightarrow> Inl e | Inr x \<Rightarrow> if x then Inr True else b)"

definition handleFieldTypesRenaming :: "Env \<Rightarrow> Schema \<Rightarrow> Error + Schema" where
  "handleFieldTypesRenaming E schema =
     forEachModelField (\<lambda>property. True)
       (\<lambda>s model field.
          thenE (orElseE (isOptionSetField E s field) (isMultiSelectOptionSetField E s field))
            (\<lambda>isEnumFieldType.
               thenE (orElseE (isSingleLineTextField E s field)
                     (orElseE (isWholeNumberField E s field)
                     (orElseE (isDecimalNumberField E s field)
                     (orElseE (isBooleanField E s field)
                     (orElseE (isDateTimeField E s field)
                              (isJsonField E s field))))))
                 (\<lambda>isScalarFieldType.
                    if \<not> isEnumFieldType \<and> \<not> isScalarFieldType
                    then builderFieldThen (Model.name model) (Field.name field)
                           (\<lambda>g. g\<lparr> fieldType := formatModelName E (fieldType g) \<rparr>) s
                    else Inr s)))
       schema"

definition handleIdField :: "Schema \<Rightarrow> Error + Schema" where
  "handleIdField schema =
     forEachModelField (\<lambda>property. True)
       (\<lambda>s model field.
          (let isIdField =
                 someOpt (\<lambda>attr. Attribute.name attr = ID_ATTRIBUTE_NAME) (attributes field)
           in if \<not> isIdField \<and> Field.name field = ID_FIELD_NAME
              then thenE (builderFieldAttribute (Model.name model) (Field.name field) ''map''
                            [quoted (Model.name model @ ''Id'')] s)
                     (builderFieldThen (Model.name model) (Field.name field)
                        (\<lambda>g. g\<lparr> Field.name := Model.name model @ ''Id'' \<rparr>))
              else if isIdField \<and> Field.name field \<noteq> ID_FIELD_NAME
              then thenE (builderFieldAttribute (Model.name model) (Field.name field) ''map''
                            [quoted (Field.name field)] s)
                     (builderFieldThen (Model.name model) (Field.name field)
                        (\<lambda>g. g\<lparr> Field.name := ID_FIELD_NAME \<rparr>))
              else Inr s))
       schema"

subsection \<open>The pipeline\<close>

definition operations :: "Env \<Rightarrow> (Schema \<Rightarrow> Error + Schema) list" where
  "operations E =
     [ handleModelNamesRenaming E,
       handleFieldNamesRenaming E,
       handleFieldTypesRenaming E,
       handleIdField ]"

definition processSchema ::
  "Env \<Rightarrow> (Schema \<Rightarrow> Error + Schema) list \<Rightarrow> string \<Rightarrow> Error + Schema" where
  "processSchema E ops inputSchema =
     thenE (createPrismaSchemaBuilder E inputSchema)
       (forEachE (\<lambda>operation builder. operation builder) ops)"

definition convertPrismaSchemaForImportObjects ::
  "Env \<Rightarrow> (nat \<Rightarrow> string) \<Rightarrow> string \<Rightarrow> Error + CreateBulkEntitiesInput list" where
  "convertPrismaSchemaForImportObjects E cuid schema =
     thenE (processSchema E (operations E) schema)
       (convertPreparedSchemaForImportObjects E cuid)"

subsection \<open>Descriptors up to their fresh identifiers\<close>

text \<open>The two places a fresh identifier reaches: the \<^verbatim>\<open>id\<close> of an entity and the
  \<^verbatim>\<open>relatedEntityId\<close> of a lookup. Both are blanked.\<close>

fun erasePropertiesIds :: "Properties \<Rightarrow> Properties" where
  "erasePropertiesIds (LookupProperties relatedEntityId allowMultipleSelection) =
     LookupProperties [] allowMultipleSelection"
| "erasePropertiesIds p = p"

definition eraseFieldIds :: "CreateBulkFieldsInput \<Rightarrow> CreateBulkFieldsInput" where
  "eraseFieldIds entityField =
     entityField\<lparr> properties :=
                    erasePropertiesIds (CreateBulkFieldsInput.properties entityField) \<rparr>"

definition eraseIds :: "CreateBulkEntitiesInput \<Rightarrow> CreateBulkEntitiesInput" where
  "eraseIds entity =
     entity\<lparr> entity_id := [], entity_fields := map eraseFieldIds (entity_fields entity) \<rparr>"

definition eraseResult ::
  "Error + CreateBulkEntitiesInput list \<Rightarrow> Error + CreateBulkEntitiesInput list" where
  "eraseResult r = map_sum (\<lambda>e. e) (map eraseIds) r"

definition erasedSnd ::
  "Error + (CreateBulkEntitiesInput \<times> CreateBulkEntitiesInput list) \<Rightarrow>
   Error + CreateBulkEntitiesInput list" where
  "erasedSnd r = map_sum (\<lambda>e. e) (\<lambda>p. map eraseIds (snd p)) r"

section \<open>Shapes of fields the specification names\<close>

text \<open>A field has a default-value attribute whose argument is a function-call marker
  named \<^verbatim>\<open>now\<close>.\<close>

definition hasDefaultNow :: "Field \<Rightarrow> bool" where
  "hasDefaultNow field =
     someOpt (\<lambda>attribute. Attribute.name attribute = ''default'' \<and>
                           someOpt isNowArg (args attribute))
       (attributes field)"

text \<open>A field carries the auto-update timestamp attribute.\<close>

definition hasUpdatedAt :: "Field \<Rightarrow> bool" where
  "hasUpdatedAt field =
     someOpt (\<lambda>attribute. Attribute.name attribute = ''updatedAt'') (attributes field)"

text \<open>An argument is the owning-side columns argument and lists the name \<open>n\<close>.\<close>

fun listsColumn :: "string \<Rightarrow> ArgValue \<Rightarrow> bool" where
  "listsColumn n (KeyValue k (VRelationArray as)) = (k = ''fields'' \<and> n \<in> set as)"
| "listsColumn n v = False"

text \<open>A field carries a relation attribute whose owning-side columns argument lists the
  name \<open>n\<close>.\<close>

definition referencesColumn :: "string \<Rightarrow> Field \<Rightarrow> bool" where
  "referencesColumn n field =
     list_ex (\<lambda>attr. Attribute.name attr = ''relation'' \<and>
                       list_ex (listsColumn n) (listOf (args attr)))
       (listOf (attributes field))"

text \<open>A field carries a relation attribute with an owning-side columns argument.\<close>

fun isColumnsArg :: "ArgValue \<Rightarrow> bool" where
  "isColumnsArg (KeyValue k v) = (k = ''fields'')"
| "isColumnsArg v = False"

definition hasOwningSideColumns :: "Field \<Rightarrow> bool" where
  "hasOwningSideColumns field =
     list_ex (\<lambda>attr. Attribute.name attr = ''relation'' \<and>
                       list_ex isColumnsArg (listOf (args attr)))
       (listOf (attributes field))"

text \<open>A field carries a relation attribute with the relation name \<open>n\<close>.\<close>

definition carriesRelationName :: "string \<Rightarrow> Field \<Rightarrow> bool" where
  "carriesRelationName n field =
     list_ex (\<lambda>attr. Attribute.name attr = ''relation'' \<and>
                       list_ex (\<lambda>arg. arg = Plain (VString n)) (listOf (args attr)))
       (listOf (attributes field))"

text \<open>The relation attributes of a field are well formed: each has an argument list, and
  each owning-side columns argument carries an array node.\<close>

fun columnsArgIsArray :: "ArgValue \<Rightarrow> bool" where
  "columnsArgIsArray (KeyValue k (VRelationArray as)) = True"
| "columnsArgIsArray (KeyValue k v) = (k \<noteq> ''fields'')"
| "columnsArgIsArray (Plain v) = True"

definition relationsWellFormed :: "Field \<Rightarrow> bool" where
  "relationsWellFormed field =
     list_all (\<lambda>attr. Attribute.name attr \<noteq> ''relation'' \<or>
                        (case args attr of
                           None \<Rightarrow> False
                         | Some as \<Rightarrow> list_all columnsArgIsArray as))
       (listOf (attributes field))"

section \<open>Example schemas\<close>

text \<open>Collaborators that leave every name as it is: canonical names are fixed points of
  the naming utilities.\<close>

definition identityEnv :: Env where
  "identityEnv =
     \<lparr> formatModelName = (\<lambda>s. s),
       formatFieldName = (\<lambda>s. s),
       formatDisplayName = (\<lambda>s. s),
       filterOutAmplicationAttributes = (\<lambda>xs. xs),
       idTypePropertyMap = (\<lambda>s. None),
       idTypePropertyMapByFieldType = (\<lambda>s. None),
       isReservedName = (\<lambda>s. False),
       pluralize = (\<lambda>s. s @ ''s''),
       isPlural = (\<lambda>s. False),
       toLowerCase = (\<lambda>s. s),
       trim = (\<lambda>s. s),
       createPrismaSchemaBuilder = (\<lambda>s. Inl ParseError) \<rparr>"

text \<open>\<^verbatim>\<open>enum Tag { Red Blue }  model Post { tags Tag[] }\<close>\<close>

definition tagEnum :: Enum where
  "tagEnum =
     \<lparr> Enum.name = ''Tag'',
       enumerators = [\<lparr> Enumerator.name = ''Red'' \<rparr>, \<lparr> Enumerator.name = ''Blue'' \<rparr>] \<rparr>"

definition tagsField :: Field where
  "tagsField =
     \<lparr> Field.name = ''tags'', fieldType = ''Tag'', array = Some True, optional = Some False,
       attributes = None \<rparr>"

definition postModel :: Model where
  "postModel = \<lparr> Model.name = ''Post'', Model.properties = [PField tagsField] \<rparr>"

definition postSchema :: Schema where
  "postSchema = [BEnum tagEnum, BModel postModel]"

text \<open>\<^verbatim>\<open>model Event { id DateTime @id @default(now())  createdAt DateTime @default(now())
  blob Bytes }\<close>\<close>

definition stampField :: Field where
  "stampField =
     \<lparr> Field.name = ''id'', fieldType = ''DateTime'', array = Some False, optional = Some False,
       attributes = Some
         [ \<lparr> kind = ''field'', name = ''id'', args = None \<rparr>,
           \<lparr> kind = ''field'', name = ''default'', args = Some [Plain (VFunc ''now'' [])] \<rparr> ] \<rparr>"

definition createdField :: Field where
  "createdField =
     \<lparr> Field.name = ''createdAt'', fieldType = ''DateTime'', array = Some False,
       optional = Some False,
       attributes = Some
         [ \<lparr> kind = ''field'', name = ''default'', args = Some [Plain (VFunc ''now'' [])] \<rparr> ] \<rparr>"

definition bytesField :: Field where
  "bytesField =
     \<lparr> Field.name = ''blob'', fieldType = ''Bytes'', array = None, optional = None,
       attributes = None \<rparr>"

definition eventSchema :: Schema where
  "eventSchema =
     [BModel \<lparr> Model.name = ''Event'',
               Model.properties = [PField stampField, PField createdField, PField bytesField] \<rparr>]"

text \<open>The scenario of the specification:
  \<^verbatim>\<open>model Customer { id Int @id @default(autoincrement())  name String  orders Order[] }
  model Order { id Int @id  customerId Int
    customer Customer @relation(fields: [customerId], references: [id]) }\<close>\<close>

definition idAttribute :: Attribute where
  "idAttribute = \<lparr> kind = ''field'', name = ''id'', args = None \<rparr>"

definition customerIdColumn :: Field where
  "customerIdColumn =
     \<lparr> Field.name = ''id'', fieldType = ''Int'', array = Some False, optional = Some False,
       attributes = Some
         [ idAttribute,
           \<lparr> kind = ''field'', name = ''default'',
             args = Some [Plain (VFunc ''autoincrement'' [])] \<rparr> ] \<rparr>"

definition customerNameField :: Field where
  "customerNameField =
     \<lparr> Field.name = ''name'', fieldType = ''String'', array = Some False, optional = Some True,
       attributes = None \<rparr>"

definition ordersField :: Field where
  "ordersField =
     \<lparr> Field.name = ''orders'', fieldType = ''Order'', array = Some True, optional = Some False,
       attributes = None \<rparr>"

definition customerModel :: Model where
  "customerModel =
     \<lparr> Model.name = ''Customer'',
       Model.properties =
         [PField customerIdColumn, PField customerNameField, PField ordersField] \<rparr>"

definition orderIdColumn :: Field where
  "orderIdColumn =
     \<lparr> Field.name = ''id'', fieldType = ''Int'', array = Some False, optional = Some False,
       attributes = Some [idAttribute] \<rparr>"

definition customerIdField :: Field where
  "customerIdField =
     \<lparr> Field.name = ''customerId'', fieldType = ''Int'', array = Some False,
       optional = Some False, attributes = None \<rparr>"

definition customerField :: Field where
  "customerField =
     \<lparr> Field.name = ''customer'', fieldType = ''Customer'', array = Some False,
       optional = Some False,
       attributes = Some
         [ \<lparr> kind = ''field'', name = ''relation'',
             args = Some [ KeyValue ''fields'' (VRelationArray [''customerId'']),
                           KeyValue ''references'' (VRelationArray [''id'']) ] \<rparr> ] \<rparr>"

definition orderModel :: Model where
  "orderModel =
     \<lparr> Model.name = ''Order'',
       Model.properties =
         [PField orderIdColumn, PField customerIdField, PField customerField] \<rparr>"

definition shopSchema :: Schema where
  "shopSchema = [BModel customerModel, BModel orderModel]"

text \<open>A named relation with its owning side and its back-reference:
  \<^verbatim>\<open>model Author { id Int @id  posts Article[] @relation("WrittenPosts") }
  model Article { id Int @id  authorId Int
    author Author @relation("WrittenPosts", fields: [authorId], references: [id]) }\<close>\<close>

definition postsField :: Field where
  "postsField =
     \<lparr> Field.name = ''posts'', fieldType = ''Article'', array = Some True,
       optional = Some False,
       attributes = Some
         [ \<lparr> kind = ''field'', name = ''relation'',
             args = Some [Plain (VString (quoted ''WrittenPosts''))] \<rparr> ] \<rparr>"

definition authorModel :: Model where
  "authorModel =
     \<lparr> Model.name = ''Author'',
       Model.properties = [PField orderIdColumn, PField postsField] \<rparr>"

definition authorIdField :: Field where
  "authorIdField =
     \<lparr> Field.name = ''authorId'', fieldType = ''Int'', array = Some False,
       optional = Some False, attributes = None \<rparr>"

definition authorField :: Field where
  "authorField =
     \<lparr> Field.name = ''author'', fieldType = ''Author'', array = Some False,
       optional = Some False,
       attributes = Some
         [ \<lparr> kind = ''field'', name = ''relation'',
             args = Some [ Plain (VString (quoted ''WrittenPosts'')),
                           KeyValue ''fields'' (VRelationArray [''authorId'']),
                           KeyValue ''references'' (VRelationArray [''id'']) ] \<rparr> ] \<rparr>"

definition articleModel :: Model where
  "articleModel =
     \<lparr> Model.name = ''Article'',
       Model.properties = [PField orderIdColumn, PField authorIdField, PField authorField] \<rparr>"

definition blogSchema :: Schema where
  "blogSchema = [BModel authorModel, BModel articleModel]"

text \<open>A named one-to-one self-relation: both sides live in the same Record-Type.
  \<^verbatim>\<open>model Person { id Int @id  successorId Int?
    successor Person? @relation("History", fields: [successorId], references: [id])
    predecessor Person? @relation("History") }\<close>\<close>

definition successorIdField :: Field where
  "successorIdField =
     \<lparr> Field.name = ''successorId'', fieldType = ''Int'', array = Some False,
       optional = Some True, attributes = None \<rparr>"

definition successorField :: Field where
  "successorField =
     \<lparr> Field.name = ''successor'', fieldType = ''Person'', array = Some False,
       optional = Some True,
       attributes = Some
         [ \<lparr> kind = ''field'', name = ''relation'',
             args = Some [ Plain (VString (quoted ''History'')),
                           KeyValue ''fields'' (VRelationArray [''successorId'']),
                           KeyValue ''references'' (VRelationArray [''id'']) ] \<rparr> ] \<rparr>"

definition predecessorField :: Field where
  "predecessorField =
     \<lparr> Field.name = ''predecessor'', fieldType = ''Person'', array = Some False,
       optional = Some True,
       attributes = Some
         [ \<lparr> kind = ''field'', name = ''relation'',
             args = Some [Plain (VString (quoted ''History''))] \<rparr> ] \<rparr>"

definition personModel :: Model where
  "personModel =
     \<lparr> Model.name = ''Person'',
       Model.properties =
         [ PField orderIdColumn, PField successorIdField, PField successorField,
           PField predecessorField ] \<rparr>"

definition personSchema :: Schema where
  "personSchema = [BModel personModel]"

text \<open>A relation field that lists its own name as owning-side column:
  \<^verbatim>\<open>model Node { parent Node @relation(fields: [parent], references: [parent]) }\<close>\<close>

definition parentField :: Field where
  "parentField =
     \<lparr> Field.name = ''parent'', fieldType = ''Node'', array = Some False,
       optional = Some False,
       attributes = Some
         [ \<lparr> kind = ''field'', name = ''relation'',
             args = Some [ KeyValue ''fields'' (VRelationArray [''parent'']),
                           KeyValue ''references'' (VRelationArray [''parent'']) ] \<rparr> ] \<rparr>"

definition nodeModel :: Model where
  "nodeModel = \<lparr> Model.name = ''Node'', Model.properties = [PField parentField] \<rparr>"

text \<open>A table whose column \<^verbatim>\<open>id\<close> is not its primary key:
  \<^verbatim>\<open>model Ledger { id String  key Int @id }\<close>\<close>

definition ledgerIdField :: Field where
  "ledgerIdField =
     \<lparr> Field.name = ''id'', fieldType = ''String'', array = Some False, optional = Some False,
       attributes = None \<rparr>"

definition ledgerKeyField :: Field where
  "ledgerKeyField =
     \<lparr> Field.name = ''key'', fieldType = ''Int'', array = Some False, optional = Some False,
       attributes = Some [idAttribute] \<rparr>"

definition ledgerSchema :: Schema where
  "ledgerSchema =
     [BModel \<lparr> Model.name = ''Ledger'',
               Model.properties = [PField ledgerIdField, PField ledgerKeyField] \<rparr>]"

definition mapAttribute :: "string \<Rightarrow> Attribute" where
  "mapAttribute v = \<lparr> kind = ''field'', name = ''map'', args = Some [Plain (VString (quoted v))] \<rparr>"

text \<open>The owning side of the named relation without its back-reference:
  \<^verbatim>\<open>model Author { id Int @id }\<close> with the \<^verbatim>\<open>Article\<close> above.\<close>

definition loneAuthorModel :: Model where
  "loneAuthorModel =
     \<lparr> Model.name = ''Author'', Model.properties = [PField orderIdColumn] \<rparr>"

definition loneBlogSchema :: Schema where
  "loneBlogSchema = [BModel loneAuthorModel, BModel articleModel]"

text \<open>Two relations that claim the same column:
  \<^verbatim>\<open>model Transfer { accountId Int
    source Account @relation("Source", fields: [accountId], references: [id])
    target Account @relation("Target", fields: [accountId], references: [id]) }\<close>\<close>

definition accountIdField :: Field where
  "accountIdField =
     \<lparr> Field.name = ''accountId'', fieldType = ''Int'', array = Some False,
       optional = Some False, attributes = None \<rparr>"

definition relationOn :: "string \<Rightarrow> string \<Rightarrow> Attribute" where
  "relationOn relationName column =
     \<lparr> kind = ''field'', name = ''relation'',
       args = Some [ Plain (VString (quoted relationName)),
                     KeyValue ''fields'' (VRelationArray [column]),
                     KeyValue ''references'' (VRelationArray [''id'']) ] \<rparr>"

definition sourceField :: Field where
  "sourceField =
     \<lparr> Field.name = ''source'', fieldType = ''Account'', array = Some False,
       optional = Some False, attributes = Some [relationOn ''Source'' ''accountId''] \<rparr>"

definition targetField :: Field where
  "targetField =
     \<lparr> Field.name = ''target'', fieldType = ''Account'', array = Some False,
       optional = Some False, attributes = Some [relationOn ''Target'' ''accountId''] \<rparr>"

definition transferModel :: Model where
  "transferModel =
     \<lparr> Model.name = ''Transfer'',
       Model.properties = [PField accountIdField, PField sourceField, PField targetField] \<rparr>"

text \<open>A parser that answers every source text with the shop scenario.\<close>

definition shopEnv :: Env where
  "shopEnv = identityEnv\<lparr> createPrismaSchemaBuilder := (\<lambda>source. Inr shopSchema) \<rparr>"

section \<open>Evaluation of the example schemas\<close>

lemmas shop_defs = customerModel_def orderModel_def customerIdColumn_def customerNameField_def
  ordersField_def orderIdColumn_def customerIdField_def customerField_def idAttribute_def
  shopSchema_def

lemmas blog_defs = authorModel_def articleModel_def postsField_def authorIdField_def
  authorField_def orderIdColumn_def idAttribute_def blogSchema_def quoted_def

lemmas person_defs = personModel_def personSchema_def successorIdField_def successorField_def
  predecessorField_def orderIdColumn_def idAttribute_def quoted_def

lemmas builder_defs = forEachModelField_def forEachModel_def modelAt_def fieldAt_def nthOpt_def
  fieldPositions_def builderFieldAttribute_def builderFieldThen_def builderModelThen_def
  builderBlockAttribute_def thenE_def

lemmas transfer_defs = transferModel_def accountIdField_def sourceField_def targetField_def
  relationOn_def quoted_def

section \<open>Properties of the field classifier\<close>

lemma firstResult_Cons:
  "firstResult f (c # cs) = (case c of Some r \<Rightarrow> Inr r | None \<Rightarrow> firstResult f cs)"
  by (cases c) simp_all

lemma firstResult_sound:
  "(case firstResult field cs of
      Inr d \<Rightarrow> Some d \<in> set cs
    | Inl e \<Rightarrow> e = UnsupportedDataType (fieldType field) \<and> (\<forall>c \<in> set cs. c = None))"
  by (induction field cs rule: firstResult.induct) (auto split: sum.splits)

lemma idType_range: "idType f = Some d \<Longrightarrow> d = DataType_Id"
  by (simp add: idType_def split: if_splits)

lemma lookupRelationType_range: "lookupRelationType f = Some d \<Longrightarrow> d = Lookup"
  by (simp add: lookupRelationType_def split: if_splits)

lemma lookupModelType_range: "lookupModelType E s f = Some d \<Longrightarrow> d = Lookup"
  by (simp add: lookupModelType_def split: option.splits)

lemma optionSetType_range: "optionSetType s f = Some d \<Longrightarrow> d = OptionSet"
  by (simp add: optionSetType_def split: option.splits)

lemma createAtType_range: "createAtType f = Some d \<Longrightarrow> d = CreatedAt"
  by (simp add: createAtType_def split: option.splits if_splits)

lemma updatedAtType_range: "updatedAtType f = Some d \<Longrightarrow> d = UpdatedAt"
  by (simp add: updatedAtType_def Let_def split: if_splits)

lemma scalarType_range:
  "scalarType f = Some d \<Longrightarrow>
     d \<in> {SingleLineText, WholeNumber, DecimalNumber, Boolean, DateTime, Json}"
  by (auto simp add: scalarType_def split: if_splits)

lemma find_conj_None: "find P xs = None \<Longrightarrow> find (\<lambda>x. P x \<and> b) xs = None"
  by (induction xs) (auto split: if_splits)

text \<open>The multi-select case sits behind the option-set case, whose test it strengthens:
  whenever it would answer, the option-set case has answered already.\<close>

lemma multiSelectOptionSetType_shadowed:
  "optionSetType s f = None \<Longrightarrow> multiSelectOptionSetType s f = None"
  by (simp add: optionSetType_def multiSelectOptionSetType_def Let_def find_conj_None
      split: option.splits)

lemma resolveFieldDataType_never_MultiSelectOptionSet:
  "resolveFieldDataType E schema field \<noteq> Inr MultiSelectOptionSet"
  unfolding resolveFieldDataType_def fieldDataTypCases_def firstResult_Cons
  by (auto split: option.splits
      dest: idType_range lookupRelationType_range lookupModelType_range optionSetType_range
        createAtType_range updatedAtType_range scalarType_range
      simp: multiSelectOptionSetType_shadowed)

text \<open>
  C1. An array-valued field whose declared type names a declared Enumeration should
  classify as MultiSelectOptionSet. On the schema
  \<^verbatim>\<open>enum Tag { Red Blue }  model Post { tags Tag[] }\<close> the classifier answers OptionSet
  for \<^verbatim>\<open>tags\<close>: the option-set case does not look at the array flag and runs first.
\<close>

theorem resolveFieldDataType_enum_array_is_OptionSet:
  "orFalse (array tagsField) \<and>
   resolveFieldDataType identityEnv postSchema tagsField = Inr OptionSet"
  by (simp add: resolveFieldDataType_def fieldDataTypCases_def idType_def
      lookupRelationType_def lookupModelType_def optionSetType_def identityEnv_def
      postSchema_def postModel_def tagsField_def tagEnum_def)

text \<open>
  C6 as stated fails: a field with \<^verbatim>\<open>@default(now())\<close> and no \<^verbatim>\<open>@updatedAt\<close> that
  also carries \<^verbatim>\<open>@id\<close> classifies as Id, because the Id case runs before the CreatedAt
  case.
\<close>

theorem default_now_with_id_is_Id:
  "hasDefaultNow stampField \<and> \<not> hasUpdatedAt stampField \<and>
   resolveFieldDataType identityEnv eventSchema stampField = Inr DataType_Id"
  by (simp add: hasDefaultNow_def hasUpdatedAt_def stampField_def resolveFieldDataType_def
      fieldDataTypCases_def idType_def ID_ATTRIBUTE_NAME_def)

text \<open>
  C6, amended. A field that no earlier case claims (no primary-key attribute, no relation
  attribute, a declared type that matches no declared Record-Type and names no declared
  Enumeration) and whose first default-value attribute has a \<^verbatim>\<open>now\<close> function-call
  argument classifies as CreatedAt, hence neither as UpdatedAt nor as DateTime, whether or
  not it carries the auto-update attribute.
\<close>

theorem resolveFieldDataType_CreatedAt:
  assumes noId: "\<not> someOpt (\<lambda>a. Attribute.name a = ID_ATTRIBUTE_NAME) (attributes field)"
    and noRel: "\<not> someOpt (\<lambda>a. Attribute.name a = ''relation'') (attributes field)"
    and noModel: "\<forall>m \<in> set (modelsOf schema).
                    formatModelName E (Model.name m) \<noteq> formatModelName E (fieldType field)"
    and noEnum: "\<forall>e \<in> set (enumsOf schema). Enum.name e \<noteq> fieldType field"
    and dflt: "findOpt (\<lambda>a. Attribute.name a = ''default'') (attributes field) = Some d"
    and now: "someOpt isNowArg (args d)"
  shows "resolveFieldDataType E schema field = Inr CreatedAt"
proof -
  have 1: "idType field = None" using noId by (simp add: idType_def)
  have 2: "lookupRelationType field = None" using noRel by (simp add: lookupRelationType_def)
  have "find (\<lambda>model. formatModelName E (Model.name model) = formatModelName E (fieldType field))
          (modelsOf schema) = None"
    using noModel by (simp add: find_None_iff)
  then have 3: "lookupModelType E schema field = None" by (simp add: lookupModelType_def)
  have "find (\<lambda>enumItem. Enum.name enumItem = fieldType field) (enumsOf schema) = None"
    using noEnum by (simp add: find_None_iff)
  then have 4: "optionSetType schema field = None" by (simp add: optionSetType_def)
  then have 5: "multiSelectOptionSetType schema field = None"
    by (rule multiSelectOptionSetType_shadowed)
  have 6: "createAtType field = Some CreatedAt" using dflt now by (simp add: createAtType_def)
  show ?thesis
    by (simp add: resolveFieldDataType_def fieldDataTypCases_def 1 2 3 4 5 6)
qed

theorem resolveFieldDataType_CreatedAt_witness:
  "resolveFieldDataType identityEnv eventSchema createdField = Inr CreatedAt"
  using resolveFieldDataType_CreatedAt
    [where field = createdField and schema = eventSchema and E = identityEnv
      and d = "\<lparr> kind = ''field'', name = ''default'', args = Some [Plain (VFunc ''now'' [])] \<rparr>"]
  by (simp add: createdField_def eventSchema_def stampField_def bytesField_def identityEnv_def
      ID_ATTRIBUTE_NAME_def)

text \<open>
  C7. Classification is total: the classifier either returns the answer of one of its
  cases, which is one of the twelve categories, or, when no case answers, raises
  ``Unsupported data type'' with the declared type of the field. No third outcome exists.
\<close>

theorem resolveFieldDataType_total:
  "(case resolveFieldDataType E schema field of
      Inr d \<Rightarrow>
        Some d \<in> set (fieldDataTypCases E schema field) \<and>
        d \<in> {DataType_Id, Lookup, OptionSet, MultiSelectOptionSet, CreatedAt, UpdatedAt,
              SingleLineText, WholeNumber, DecimalNumber, Boolean, DateTime, Json}
    | Inl e \<Rightarrow>
        e = UnsupportedDataType (fieldType field) \<and>
        (\<forall>c \<in> set (fieldDataTypCases E schema field). c = None))"
proof (cases "resolveFieldDataType E schema field")
  case (Inl e)
  then show ?thesis
    using firstResult_sound [of field "fieldDataTypCases E schema field"]
    by (simp add: resolveFieldDataType_def)
next
  case (Inr d)
  have "d \<in> {DataType_Id, Lookup, OptionSet, MultiSelectOptionSet, CreatedAt, UpdatedAt,
              SingleLineText, WholeNumber, DecimalNumber, Boolean, DateTime, Json}"
    by (cases d) simp_all
  with Inr show ?thesis
    using firstResult_sound [of field "fieldDataTypCases E schema field"]
    by (simp add: resolveFieldDataType_def)
qed

theorem resolveFieldDataType_total_witness:
  "resolveFieldDataType identityEnv eventSchema bytesField = Inl (UnsupportedDataType ''Bytes'') \<and>
   resolveFieldDataType identityEnv eventSchema createdField = Inr CreatedAt"
  using resolveFieldDataType_total [where E = identityEnv and schema = eventSchema and field = bytesField]
    resolveFieldDataType_total [where E = identityEnv and schema = eventSchema and field = createdField]
  by (simp add: resolveFieldDataType_def fieldDataTypCases_def idType_def lookupRelationType_def
      lookupModelType_def optionSetType_def multiSelectOptionSetType_def createAtType_def
      updatedAtType_def scalarType_def bytesField_def createdField_def eventSchema_def
      stampField_def identityEnv_def ID_ATTRIBUTE_NAME_def)

section \<open>Properties of the relation resolver\<close>

text \<open>When the callback never raises, the raising array methods are the plain ones.\<close>

lemma someE_pure:
  "(\<And>x. x \<in> set xs \<Longrightarrow> p x = Inr (q x)) \<Longrightarrow> someE p xs = Inr (list_ex q xs)"
  by (induction xs) auto

lemma filterE_pure:
  "(\<And>x. x \<in> set xs \<Longrightarrow> p x = Inr (q x)) \<Longrightarrow> filterE p xs = Inr (filter q xs)"
  by (induction xs) auto

lemma findE_pure:
  "(\<And>x. x \<in> set xs \<Longrightarrow> p x = Inr (q x)) \<Longrightarrow> findE p xs = Inr (find q xs)"
  by (induction xs) auto

lemma listsFieldName_wf:
  "columnsArgIsArray arg \<Longrightarrow> n \<noteq> [] \<Longrightarrow> listsFieldName n arg = Inr (listsColumn n arg)"
  by (induction n arg rule: listsFieldName.induct) auto

lemma relationWith_wf:
  assumes "Attribute.name attr \<noteq> ''relation'' \<or>
           (case args attr of None \<Rightarrow> False | Some as \<Rightarrow> list_all columnsArgIsArray as)"
    and "n \<noteq> []"
  shows "relationWith (listsFieldName n) attr =
         Inr (Attribute.name attr = ''relation'' \<and> list_ex (listsColumn n) (listOf (args attr)))"
proof (cases "Attribute.name attr = ''relation''")
  case False
  then show ?thesis by (simp add: relationWith_def)
next
  case True
  with assms(1) obtain as where as: "args attr = Some as" "list_all columnsArgIsArray as"
    by (auto split: option.splits)
  have "someE (listsFieldName n) as = Inr (list_ex (listsColumn n) as)"
    using as(2) assms(2) by (intro someE_pure listsFieldName_wf) (auto simp: list_all_iff)
  with True as show ?thesis by (simp add: relationWith_def)
qed

lemma field_refs_wf:
  assumes "relationsWellFormed g" and "n \<noteq> []"
  shows "someOptE (relationWith (listsFieldName n)) (attributes g) = Inr (referencesColumn n g)"
proof (cases "attributes g")
  case None
  then show ?thesis by (simp add: referencesColumn_def)
next
  case (Some attrs)
  have "someE (relationWith (listsFieldName n)) attrs =
        Inr (list_ex (\<lambda>attr. Attribute.name attr = ''relation'' \<and>
                              list_ex (listsColumn n) (listOf (args attr))) attrs)"
    using assms Some
    by (intro someE_pure relationWith_wf) (auto simp: relationsWellFormed_def list_all_iff)
  with Some show ?thesis by (simp add: referencesColumn_def)
qed

text \<open>
  C3 as stated fails: the scan of \<^verbatim>\<open>isFkFieldOfARelation\<close> runs over every field of
  the Record-Type, the given field included. For a relation field that lists its own name
  no other field references it, and the function answers true.
\<close>

theorem isFkFieldOfARelation_counts_the_field_itself:
  "filter (\<lambda>g. g \<noteq> parentField \<and> referencesColumn (Field.name parentField) g)
     (fieldsOf (Model.properties nodeModel)) = [] \<and>
   isFkFieldOfARelation [BModel nodeModel] nodeModel parentField = Inr (True, [])"
  by (simp add: nodeModel_def parentField_def isFkFieldOfARelation_def
      relationFiledWithReference_def relationWith_def referencesColumn_def)

text \<open>
  C3, amended. For a field with a non-empty name and a Record-Type whose relation
  attributes are well formed, \<^verbatim>\<open>isFkFieldOfARelation\<close> returns true if and only if
  exactly one field of the Record-Type (the given field included) carries a relation
  attribute whose \<^verbatim>\<open>fields\<close> argument lists the name. It never raises there; when more
  than one field does, it returns false and sends the same error line to the logger
  twice; otherwise nothing is logged.
\<close>

theorem isFkFieldOfARelation_iff_one_reference:
  assumes wf: "\<forall>g \<in> set (fieldsOf (Model.properties model)). relationsWellFormed g"
    and nm: "Field.name field \<noteq> []"
  shows "isFkFieldOfARelation schema model field =
         Inr (length (filter (referencesColumn (Field.name field))
                        (fieldsOf (Model.properties model))) = 1,
              if 1 < length (filter (referencesColumn (Field.name field))
                               (fieldsOf (Model.properties model)))
              then [moreThanOneRelationField model field, moreThanOneRelationField model field]
              else [])"
proof -
  have "relationFiledWithReference model field =
        Inr (filter (referencesColumn (Field.name field)) (fieldsOf (Model.properties model)))"
    unfolding relationFiledWithReference_def
    using wf nm by (intro filterE_pure field_refs_wf) auto
  then show ?thesis by (simp add: isFkFieldOfARelation_def)
qed

theorem isFkFieldOfARelation_iff_one_reference_witness:
  "isFkFieldOfARelation shopSchema orderModel customerIdField = Inr (True, []) \<and>
   isFkFieldOfARelation shopSchema orderModel customerField = Inr (False, []) \<and>
   isFkFieldOfARelation [BModel transferModel] transferModel accountIdField =
     Inr (False,
          [ ''Field accountId on model Transfer has more than one relation field'',
            ''Field accountId on model Transfer has more than one relation field'' ])"
  using isFkFieldOfARelation_iff_one_reference
      [where model = orderModel and field = customerIdField and schema = shopSchema]
    isFkFieldOfARelation_iff_one_reference
      [where model = orderModel and field = customerField and schema = shopSchema]
    isFkFieldOfARelation_iff_one_reference
      [where model = transferModel and field = accountIdField
        and schema = "[BModel transferModel]"]
  by (simp add: shop_defs transfer_defs relationsWellFormed_def referencesColumn_def
      moreThanOneRelationField_def)

text \<open>
  C8. A field whose declared type matches a Record-Type and which carries a named relation
  attribute \<^emph>\<open>with\<close> explicit owning-side columns is not one of the shapes to skip. On
  \<^verbatim>\<open>author Author @relation("WrittenPosts", fields: [authorId], references: [id])\<close>
  \<^verbatim>\<open>isNotAnnotatedRelationField\<close> answers true all the same, since it only looks for a
  string argument, and the builder emits nothing for the owning side.
\<close>

theorem isNotAnnotatedRelationField_skips_named_owning_side:
  "hasOwningSideColumns authorField \<and>
   isNotAnnotatedRelationField identityEnv blogSchema authorField = Inr True \<and>
   convertField identityEnv blogSchema articleModel authorField preparedEntities =
     Inr preparedEntities"
  by (simp add: hasOwningSideColumns_def isNotAnnotatedRelationField_def relationWith_def
      convertField_def isFkFieldOfARelation_def relationFiledWithReference_def
      identityEnv_def blog_defs)

text \<open>
  C2. In the named-relation case the pairing does not require exactly one match. With two
  remote fields carrying the relation name nothing is raised and the first in declaration
  order is returned: for the self-relation of \<^verbatim>\<open>Person\<close> that is the field
  \<^verbatim>\<open>successor\<close> itself, not its opposite \<^verbatim>\<open>predecessor\<close>. With no remote field
  carrying the name nothing is raised either: the pair comes back with an
  \<^verbatim>\<open>undefined\<close> remote field, the guard of the lookup converter does not see it, and the
  converter dies on a \<^verbatim>\<open>TypeError\<close> that names no Record-Type.
\<close>

theorem findRemoteRelatedModelAndField_named_misses_checks:
  "relationAttributeName successorField = Inr (Some (quoted ''History'')) \<and>
   filter (carriesRelationName (quoted ''History'')) (fieldsOf (Model.properties personModel)) =
     [successorField, predecessorField] \<and>
   findRemoteRelatedModelAndField identityEnv personSchema personModel successorField =
     Inr (Some (personModel, Some successorField)) \<and>
   relationAttributeName authorField = Inr (Some (quoted ''WrittenPosts'')) \<and>
   filter (carriesRelationName (quoted ''WrittenPosts''))
     (fieldsOf (Model.properties loneAuthorModel)) = [] \<and>
   findRemoteRelatedModelAndField identityEnv loneBlogSchema articleModel authorField =
     Inr (Some (loneAuthorModel, None)) \<and>
   convertPrismaLookupToEntityField identityEnv loneBlogSchema articleModel authorField
     (prepareEntities identityEnv (\<lambda>i. ''c'') 0 (modelsOf loneBlogSchema)) = Inl TypeError"
  by (simp add: findRemoteRelatedModelAndField_def namedRemoteField_def relationWith_def
      carriesRelationName_def convertPrismaLookupToEntityField_def findEntity_def
      prepareEntity_def identityEnv_def person_defs blog_defs loneAuthorModel_def
      loneBlogSchema_def)

lemma relationWith_name_wf:
  assumes "Attribute.name attr \<noteq> ''relation'' \<or>
           (case args attr of None \<Rightarrow> False | Some as \<Rightarrow> list_all columnsArgIsArray as)"
  shows "relationWith (\<lambda>arg. Inr (arg = Plain (VString n))) attr =
         Inr (Attribute.name attr = ''relation'' \<and>
              list_ex (\<lambda>arg. arg = Plain (VString n)) (listOf (args attr)))"
proof (cases "Attribute.name attr = ''relation''")
  case False
  then show ?thesis by (simp add: relationWith_def)
next
  case True
  with assms obtain as where as: "args attr = Some as"
    by (auto split: option.splits)
  have "someE (\<lambda>arg. Inr (arg = Plain (VString n))) as =
        Inr (list_ex (\<lambda>arg. arg = Plain (VString n)) as)"
    by (intro someE_pure) simp
  with True as show ?thesis by (simp add: relationWith_def)
qed

lemma field_name_wf:
  assumes "relationsWellFormed g"
  shows "someOptE (relationWith (\<lambda>arg. Inr (arg = Plain (VString n)))) (attributes g) =
         Inr (carriesRelationName n g)"
proof (cases "attributes g")
  case None
  then show ?thesis by (simp add: carriesRelationName_def)
next
  case (Some attrs)
  have "someE (relationWith (\<lambda>arg. Inr (arg = Plain (VString n)))) attrs =
        Inr (list_ex (\<lambda>attr. Attribute.name attr = ''relation'' \<and>
                              list_ex (\<lambda>arg. arg = Plain (VString n)) (listOf (args attr))) attrs)"
    using assms Some
    by (intro someE_pure relationWith_name_wf) (auto simp: relationsWellFormed_def list_all_iff)
  with Some show ?thesis by (simp add: carriesRelationName_def)
qed

lemma namedRemoteField_wf:
  assumes "\<forall>g \<in> set fs. relationsWellFormed g"
  shows "namedRemoteField n fs = Inr (find (carriesRelationName n) fs)"
  unfolding namedRemoteField_def
  using assms by (intro findE_pure field_name_wf) auto

text \<open>
  The pairing, branch by branch. Let the relation name be what the scan of the field's
  attributes leaves (the first string argument of the last attribute when that is a
  relation attribute), and let the remote Record-Type exist. Without a non-empty name (the
  implicit back-reference case) exactly one remote field that references the current
  Record-Type and carries no relation attribute is required: none raises ``No field
  found'', several raise ``Multiple fields found'', both naming the two Record-Types, and
  one is returned with the remote model. With a non-empty name, and well-formed relation
  attributes on the remote side, the first remote field carrying a relation attribute with
  that name, if there is one, is returned with the remote model.
\<close>

theorem findRemoteRelatedModelAndField_cases:
  assumes rn: "relationAttributeName field = Inr relationName"
    and rm: "find (\<lambda>item. formatModelName E (Model.name item) =
                           formatModelName E (fieldType field)) (modelsOf schema) =
             Some remoteModel"
  shows "(\<not> truthyName relationName \<longrightarrow>
            findRemoteRelatedModelAndField E schema model field =
              (case backReferenceFields E model (fieldsOf (Model.properties remoteModel)) of
                 [] \<Rightarrow> Inl (NoFieldFound (Model.name remoteModel) (Model.name model))
               | [remoteField] \<Rightarrow> Inr (Some (remoteModel, Some remoteField))
               | remoteField # others \<Rightarrow>
                   Inl (MultipleFieldsFound (Model.name remoteModel) (Model.name model)))) \<and>
         (\<forall>n remoteField.
            relationName = Some n \<and> n \<noteq> [] \<and>
            (\<forall>g \<in> set (fieldsOf (Model.properties remoteModel)). relationsWellFormed g) \<and>
            find (carriesRelationName n) (fieldsOf (Model.properties remoteModel)) =
              Some remoteField \<longrightarrow>
            findRemoteRelatedModelAndField E schema model field =
              Inr (Some (remoteModel, Some remoteField)))"
proof (intro conjI impI allI)
  assume "\<not> truthyName relationName"
  then show "findRemoteRelatedModelAndField E schema model field =
              (case backReferenceFields E model (fieldsOf (Model.properties remoteModel)) of
                 [] \<Rightarrow> Inl (NoFieldFound (Model.name remoteModel) (Model.name model))
               | [remoteField] \<Rightarrow> Inr (Some (remoteModel, Some remoteField))
               | remoteField # others \<Rightarrow>
                   Inl (MultipleFieldsFound (Model.name remoteModel) (Model.name model)))"
    using rn rm
    by (simp add: findRemoteRelatedModelAndField_def Let_def split: list.splits)
next
  fix n remoteField
  assume h: "relationName = Some n \<and> n \<noteq> [] \<and>
            (\<forall>g \<in> set (fieldsOf (Model.properties remoteModel)). relationsWellFormed g) \<and>
            find (carriesRelationName n) (fieldsOf (Model.properties remoteModel)) =
              Some remoteField"
  then have "namedRemoteField n (fieldsOf (Model.properties remoteModel)) = Inr (Some remoteField)"
    by (simp add: namedRemoteField_wf)
  with h rn rm show "findRemoteRelatedModelAndField E schema model field =
              Inr (Some (remoteModel, Some remoteField))"
    by (simp add: findRemoteRelatedModelAndField_def Let_def)
qed

theorem findRemoteRelatedModelAndField_cases_witness:
  "relationAttributeName customerField = Inr None \<and>
   backReferenceFields identityEnv orderModel (fieldsOf (Model.properties customerModel)) =
     [ordersField] \<and>
   findRemoteRelatedModelAndField identityEnv shopSchema orderModel customerField =
     Inr (Some (customerModel, Some ordersField)) \<and>
   relationAttributeName authorField = Inr (Some (quoted ''WrittenPosts'')) \<and>
   find (carriesRelationName (quoted ''WrittenPosts''))
     (fieldsOf (Model.properties authorModel)) = Some postsField \<and>
   findRemoteRelatedModelAndField identityEnv blogSchema articleModel authorField =
     Inr (Some (authorModel, Some postsField))"
  using findRemoteRelatedModelAndField_cases
      [where field = customerField and relationName = None and E = identityEnv
        and schema = shopSchema and remoteModel = customerModel and model = orderModel]
    findRemoteRelatedModelAndField_cases
      [where field = authorField and relationName = "Some (quoted ''WrittenPosts'')"
        and E = identityEnv and schema = blogSchema and remoteModel = authorModel
        and model = articleModel]
  by (simp add: shop_defs blog_defs identityEnv_def backReferenceFields_def
      relationsWellFormed_def carriesRelationName_def)

section \<open>Properties of the converters and of the builder\<close>

lemmas isField_defs = isSingleLineTextField_def isWholeNumberField_def isDecimalNumberField_def
  isBooleanField_def isCreatedAtField_def isUpdatedAtField_def isDateTimeField_def
  isJsonField_def isIdField_def isLookupField_def isOptionSetField_def
  isMultiSelectOptionSetField_def

lemma convertClassifiedField_dispatch:
  "convertClassifiedField E schema model field preparedEntities =
     (case resolveFieldDataType E schema field of
        Inl e \<Rightarrow> Inl e
      | Inr d \<Rightarrow> map_sum (\<lambda>e. e) snd (converterFor d E schema model field preparedEntities))"
proof (cases "resolveFieldDataType E schema field")
  case (Inl e)
  then show ?thesis
    by (simp add: convertClassifiedField_def isField_defs whenField_def thenE_def)
next
  case (Inr d)
  then show ?thesis
    by (cases d)
      (simp_all add: convertClassifiedField_def isField_defs whenField_def thenE_def
        split: sum.splits)
qed

lemmas converter_defs = convertPrismaBooleanToEntityField_def
  convertPrismaCreatedAtToEntityField_def convertPrismaUpdatedAtToEntityField_def
  convertPrismaDateTimeToEntityField_def convertPrismaDecimalNumberToEntityField_def
  convertPrismaWholeNumberToEntityField_def convertPrismaSingleLineTextToEntityField_def
  convertPrismaJsonToEntityField_def convertPrismaIdToEntityField_def
  convertPrismaOptionSetToEntityField_def convertPrismaMultiSelectOptionSetToEntityField_def
  convertPrismaLookupToEntityField_def

lemma map_sum_snd_Inr: "map_sum f snd x = Inr b \<Longrightarrow> \<exists>a. x = Inr (a, b)"
  by (cases x) auto

lemma converterFor_emits:
  assumes "converterFor d E schema model field preparedEntities = Inr (entity', ents')"
  shows "\<exists>entity entityField.
           findEntity (Model.name model) preparedEntities = Some entity \<and>
           (entity', ents') = pushField entity entityField preparedEntities \<and>
           CreateBulkFieldsInput.name entityField = Field.name field \<and>
           dataType entityField = d \<and>
           required entityField = orFalse (optional field)"
  using assms
  by (cases d)
    (auto simp: converter_defs createOneEntityFieldCommonProperties_def Let_def
      split: option.splits sum.splits prod.splits,
      (rule exI, rule conjI, erule sym, simp)+)

text \<open>
  C10. The \<^verbatim>\<open>required\<close> member of a field descriptor is the \<^verbatim>\<open>optional\<close> flag of the
  source field (absent read as false), not its negation: so the common properties are
  built, and so it stays in the descriptor that the builder emits for a classified field,
  whichever of the twelve converters builds it.
\<close>

theorem required_is_optional_flag:
  "required (createOneEntityFieldCommonProperties E field fieldDataType) =
     orFalse (optional field) \<and>
   (\<forall>preparedEntities'.
      convertClassifiedField E schema model field preparedEntities = Inr preparedEntities' \<longrightarrow>
      (\<exists>entity entityField.
         findEntity (Model.name model) preparedEntities = Some entity \<and>
         preparedEntities' = snd (pushField entity entityField preparedEntities) \<and>
         CreateBulkFieldsInput.name entityField = Field.name field \<and>
         required entityField = orFalse (optional field)))"
proof (intro conjI allI impI)
  show "required (createOneEntityFieldCommonProperties E field fieldDataType) =
        orFalse (optional field)"
    by (simp add: createOneEntityFieldCommonProperties_def)
next
  fix preparedEntities'
  assume conv: "convertClassifiedField E schema model field preparedEntities =
                Inr preparedEntities'"
  then obtain d where
    "map_sum (\<lambda>e. e) snd (converterFor d E schema model field preparedEntities) =
     Inr preparedEntities'"
    by (auto simp: convertClassifiedField_dispatch split: sum.splits)
  then obtain entity' where
    d: "converterFor d E schema model field preparedEntities = Inr (entity', preparedEntities')"
    by (auto dest: map_sum_snd_Inr)
  from converterFor_emits [OF d] obtain entity entityField where
    "findEntity (Model.name model) preparedEntities = Some entity"
    "(entity', preparedEntities') = pushField entity entityField preparedEntities"
    "CreateBulkFieldsInput.name entityField = Field.name field"
    "required entityField = orFalse (optional field)"
    by blast
  then show "\<exists>entity entityField.
         findEntity (Model.name model) preparedEntities = Some entity \<and>
         preparedEntities' = snd (pushField entity entityField preparedEntities) \<and>
         CreateBulkFieldsInput.name entityField = Field.name field \<and>
         required entityField = orFalse (optional field)"
    by (metis snd_conv)
qed

theorem required_is_optional_flag_witness:
  "required (createOneEntityFieldCommonProperties identityEnv customerNameField SingleLineText) \<and>
   \<not> required (createOneEntityFieldCommonProperties identityEnv customerIdField WholeNumber) \<and>
   map_sum (\<lambda>e. e) (map (\<lambda>entity. map required (entity_fields entity)))
     (convertClassifiedField identityEnv shopSchema customerModel customerNameField
        (prepareEntities identityEnv (\<lambda>i. ''c'') 0 (modelsOf shopSchema))) =
     Inr [[True], []]"
  using required_is_optional_flag
      [where E = identityEnv and field = customerNameField and fieldDataType = SingleLineText
        and schema = shopSchema and model = customerModel
        and preparedEntities = "prepareEntities identityEnv (\<lambda>i. ''c'') 0 (modelsOf shopSchema)"]
    required_is_optional_flag
      [where E = identityEnv and field = customerIdField and fieldDataType = WholeNumber
        and schema = shopSchema and model = orderModel and preparedEntities = "[]"]
  by (simp add: convertClassifiedField_dispatch resolveFieldDataType_def fieldDataTypCases_def
      idType_def lookupRelationType_def lookupModelType_def optionSetType_def
      multiSelectOptionSetType_def createAtType_def updatedAtType_def scalarType_def
      convertPrismaSingleLineTextToEntityField_def findEntity_def pushField_def
      prepareEntity_def createOneEntityFieldCommonProperties_def Let_def
      identityEnv_def shop_defs)

text \<open>
  C4. The option-set converter finds the Enumeration through the declared type of the
  field; the multi-select converter compares the name of the Enumeration with the
  \<^emph>\<open>name\<close> of the field. For \<^verbatim>\<open>tags Tag[]\<close> the first builds the options of
  \<^verbatim>\<open>Tag\<close>, the second raises ``Enum tags not found'' although \<^verbatim>\<open>Tag\<close> is declared.
\<close>

theorem multiSelect_converter_looks_up_field_name:
  "find (\<lambda>item. Enum.name item = fieldType tagsField) (enumsOf postSchema) = Some tagEnum \<and>
   map_sum (\<lambda>e. e) (\<lambda>r. map CreateBulkFieldsInput.properties (entity_fields (fst r)))
     (convertPrismaOptionSetToEntityField identityEnv postSchema postModel tagsField
        [prepareEntity identityEnv ''c0'' postModel]) =
     Inr [OptionSetProperties [(''Red'', ''Red''), (''Blue'', ''Blue'')]] \<and>
   convertPrismaMultiSelectOptionSetToEntityField identityEnv postSchema postModel tagsField
     [prepareEntity identityEnv ''c0'' postModel] = Inl (EnumNotFound ''tags'')"
  by (simp add: convertPrismaOptionSetToEntityField_def
      convertPrismaMultiSelectOptionSetToEntityField_def
      findEntity_def prepareEntity_def pushField_def enumOptions_def Let_def
      createOneEntityFieldCommonProperties_def
      identityEnv_def postSchema_def postModel_def tagsField_def tagEnum_def)


section \<open>Properties of the naming normalizer\<close>

text \<open>
  C5. A field named \<^verbatim>\<open>id\<close> without the primary-key attribute should be renamed to
  \<^verbatim>\<open><RecordTypeName>Id\<close> with a mapping attribute that keeps \<^verbatim>\<open>id\<close>. On
  \<^verbatim>\<open>model Ledger { id String  key Int @id }\<close> the field is renamed to \<^verbatim>\<open>LedgerId\<close>, but
  its mapping attribute holds \<^verbatim>\<open>"LedgerId"\<close>, the new name: the name \<^verbatim>\<open>id\<close> is gone. The
  sibling branch does keep the old name: \<^verbatim>\<open>key\<close> becomes \<^verbatim>\<open>id\<close> with the mapping
  attribute \<^verbatim>\<open>"key"\<close>.
\<close>

theorem handleIdField_maps_to_new_name:
  "handleIdField ledgerSchema =
     Inr [BModel \<lparr> Model.name = ''Ledger'',
                   Model.properties =
                     [ PField (ledgerIdField
                         \<lparr> Field.name := ''LedgerId'',
                           attributes := Some [mapAttribute ''LedgerId''] \<rparr>),
                       PField (ledgerKeyField
                         \<lparr> Field.name := ''id'',
                           attributes := Some [idAttribute, mapAttribute ''key''] \<rparr>) ] \<rparr>]"
  by (simp add: handleIdField_def builder_defs ledgerSchema_def ledgerIdField_def
      ledgerKeyField_def idAttribute_def mapAttribute_def ID_ATTRIBUTE_NAME_def
      ID_FIELD_NAME_def upt_rec)

section \<open>The conversion up to fresh identifiers\<close>

lemma eraseIds_name: "CreateBulkEntitiesInput.name (eraseIds e) = CreateBulkEntitiesInput.name e"
  by (simp add: eraseIds_def)

lemma eraseIds_id: "entity_id (eraseIds e) = []"
  by (simp add: eraseIds_def)

lemma erasePropertiesIds_idem: "erasePropertiesIds (erasePropertiesIds p) = erasePropertiesIds p"
  by (cases p) simp_all

lemma eraseFieldIds_idem: "eraseFieldIds (eraseFieldIds fd) = eraseFieldIds fd"
  by (simp add: eraseFieldIds_def erasePropertiesIds_idem)

lemma eraseIds_idem: "eraseIds (eraseIds e) = eraseIds e"
  by (simp add: eraseIds_def eraseFieldIds_idem comp_def)

lemma eraseIds_comp: "eraseIds \<circ> eraseIds = eraseIds"
  by (rule ext) (simp add: eraseIds_idem)

lemma map_eraseIds_idem: "map eraseIds (map eraseIds a) = map eraseIds a"
  by (simp add: eraseIds_idem comp_def)

lemma findEntity_erase:
  "findEntity n (map eraseIds a) = map_option eraseIds (findEntity n a)"
  by (induction a) (simp_all add: findEntity_def eraseIds_name)

lemma replaceFirst_erase:
  "map eraseIds (replaceFirst n e' a) = replaceFirst n (eraseIds e') (map eraseIds a)"
  by (induction a) (simp_all add: eraseIds_name)

lemma pushField_erase:
  "map eraseIds (snd (pushField e fd a)) =
   snd (pushField (eraseIds e) (eraseFieldIds fd) (map eraseIds a))"
  by (simp add: pushField_def Let_def replaceFirst_erase eraseIds_name)
    (simp add: eraseIds_def)

lemma pushField_erase_eq:
  assumes "eraseFieldIds fd = eraseFieldIds fd'"
  shows "map eraseIds (snd (pushField e fd a)) =
         map eraseIds (snd (pushField (eraseIds e) fd' (map eraseIds a)))"
  by (simp add: pushField_erase eraseIds_idem eraseIds_comp eraseFieldIds_idem assms)

lemma eraseFieldIds_common:
  "eraseFieldIds (createOneEntityFieldCommonProperties E f d) =
   createOneEntityFieldCommonProperties E f d"
  by (simp add: eraseFieldIds_def createOneEntityFieldCommonProperties_def)

lemma converterFor_erase:
  "erasedSnd (converterFor d E schema model field a) =
   erasedSnd (converterFor d E schema model field (map eraseIds a))"
proof (cases "findEntity (Model.name model) a")
  case None
  then show ?thesis
    by (cases d) (simp_all add: converter_defs findEntity_erase erasedSnd_def)
next
  case (Some entity)
  show ?thesis
  proof (cases d)
    case Lookup
    show ?thesis
      unfolding Lookup converterFor.simps convertPrismaLookupToEntityField_def erasedSnd_def
      by (auto simp: Some findEntity_erase Let_def eraseIds_id
          intro!: pushField_erase_eq
          split: sum.splits option.splits prod.splits)
        (simp_all add: eraseFieldIds_def eraseIds_id)
  qed (auto simp: converter_defs Some findEntity_erase erasedSnd_def
      intro!: pushField_erase_eq split: sum.splits option.splits)
qed


lemma eraseResult_map_sum_snd: "eraseResult (map_sum (\<lambda>e. e) snd r) = erasedSnd r"
  by (cases r) (simp_all add: eraseResult_def erasedSnd_def)

lemma convertClassifiedField_erase:
  "eraseResult (convertClassifiedField E schema model field a) =
   eraseResult (convertClassifiedField E schema model field (map eraseIds a))"
proof (cases "resolveFieldDataType E schema field")
  case (Inl e)
  then show ?thesis by (simp add: convertClassifiedField_dispatch)
next
  case (Inr d)
  have "erasedSnd (converterFor d E schema model field a) =
        erasedSnd (converterFor d E schema model field (map eraseIds a))"
    by (rule converterFor_erase)
  with Inr show ?thesis
    by (simp add: convertClassifiedField_dispatch eraseResult_map_sum_snd)
qed

lemma convertField_erase:
  "eraseResult (convertField E schema model field a) =
   eraseResult (convertField E schema model field (map eraseIds a))"
proof (cases "isFkFieldOfARelation schema model field")
  case (Inl e)
  then show ?thesis by (simp add: convertField_def)
next
  case (Inr r)
  obtain isFk logged where r: "r = (isFk, logged)" by (cases r)
  have skip: "eraseResult (Inr a) = eraseResult (Inr (map eraseIds a))"
    by (simp add: eraseResult_def eraseIds_comp)
  show ?thesis
  proof (cases "isNotAnnotatedRelationField E schema field")
    case (Inl e)
    with Inr r skip show ?thesis by (simp add: convertField_def)
  next
    case na: (Inr notAnnotated)
    with Inr r skip convertClassifiedField_erase [of E schema model field a]
    show ?thesis by (simp add: convertField_def)
  qed
qed

lemma forEachE_erase:
  assumes body: "\<And>x a. eraseResult (body x a) = eraseResult (body x (map eraseIds a))"
    and sim: "map eraseIds a = map eraseIds b"
  shows "eraseResult (forEachE body xs a) = eraseResult (forEachE body xs b)"
  using sim
proof (induction xs arbitrary: a b)
  case Nil
  then show ?case by (simp add: eraseResult_def)
next
  case (Cons x xs)
  have "eraseResult (body x a) = eraseResult (body x (map eraseIds a))"
    by (rule body)
  also have "\<dots> = eraseResult (body x (map eraseIds b))"
    by (simp only: Cons.prems)
  also have "\<dots> = eraseResult (body x b)"
    by (rule body [symmetric])
  finally have step: "eraseResult (body x a) = eraseResult (body x b)" .
  show ?case
  proof (cases "body x a")
    case (Inl e)
    with step have "body x b = Inl e" by (cases "body x b") (simp_all add: eraseResult_def)
    with Inl show ?thesis by (simp add: eraseResult_def)
  next
    case (Inr a')
    with step obtain b' where b': "body x b = Inr b'" "map eraseIds a' = map eraseIds b'"
      by (cases "body x b") (simp_all add: eraseResult_def)
    with Inr Cons.IH [of a' b'] show ?thesis by simp
  qed
qed

lemma prepareEntities_erase:
  "map eraseIds (prepareEntities E cuidA i models) =
   map eraseIds (prepareEntities E cuidB j models)"
  by (induction models arbitrary: i j) (simp_all add: prepareEntity_def eraseIds_def)

lemma convertPreparedSchemaForImportObjects_erase:
  "eraseResult (convertPreparedSchemaForImportObjects E cuidA schema) =
   eraseResult (convertPreparedSchemaForImportObjects E cuidB schema)"
  unfolding convertPreparedSchemaForImportObjects_def Let_def
proof (rule forEachE_erase)
  fix model a
  show "eraseResult (forEachE (convertField E schema model) (fieldsOf (Model.properties model)) a) =
        eraseResult (forEachE (convertField E schema model) (fieldsOf (Model.properties model))
                       (map eraseIds a))"
  proof (rule forEachE_erase)
    show "map eraseIds a = map eraseIds (map eraseIds a)"
      by (simp add: eraseIds_comp)
  qed (rule convertField_erase)
next
  show "map eraseIds (prepareEntities E cuidA 0 (modelsOf schema)) =
        map eraseIds (prepareEntities E cuidB 0 (modelsOf schema))"
    by (rule prepareEntities_erase)
qed

text \<open>
  C9. Two runs of the full conversion on the same schema text differ only in the tokens
  \<^verbatim>\<open>cuid()\<close> hands out. Whatever the two sequences of tokens are, both runs fail with
  the same error or both return lists of entities that are equal once the \<^verbatim>\<open>id\<close> of
  every entity and the \<^verbatim>\<open>relatedEntityId\<close> of every lookup are blanked: same entities in
  the same order, same names, display names, custom attributes and field descriptors.
\<close>

theorem conversion_independent_of_fresh_ids:
  "eraseResult (convertPrismaSchemaForImportObjects E cuidA schema) =
   eraseResult (convertPrismaSchemaForImportObjects E cuidB schema)"
  by (cases "processSchema E (operations E) schema")
    (simp_all add: convertPrismaSchemaForImportObjects_def thenE_def
      convertPreparedSchemaForImportObjects_erase)

lemma shop_ids:
  "map_sum (\<lambda>e. e) (map entity_id)
     (convertPrismaSchemaForImportObjects shopEnv (\<lambda>i. if i = 0 then ''a0'' else ''a1'')
        ''schema'') = Inr [''a0'', ''a1''] \<and>
   map_sum (\<lambda>e. e) (map entity_id)
     (convertPrismaSchemaForImportObjects shopEnv (\<lambda>i. if i = 0 then ''b0'' else ''b1'')
        ''schema'') = Inr [''b0'', ''b1'']"
  by code_simp

theorem conversion_independent_of_fresh_ids_witness:
  "map_sum (\<lambda>e. e) (map entity_id)
     (convertPrismaSchemaForImportObjects shopEnv (\<lambda>i. if i = 0 then ''a0'' else ''a1'')
        ''schema'') = Inr [''a0'', ''a1''] \<and>
   map_sum (\<lambda>e. e) (map entity_id)
     (convertPrismaSchemaForImportObjects shopEnv (\<lambda>i. if i = 0 then ''b0'' else ''b1'')
        ''schema'') = Inr [''b0'', ''b1''] \<and>
   eraseResult
     (convertPrismaSchemaForImportObjects shopEnv (\<lambda>i. if i = 0 then ''a0'' else ''a1'')
        ''schema'') =
   eraseResult
     (convertPrismaSchemaForImportObjects shopEnv (\<lambda>i. if i = 0 then ''b0'' else ''b1'')
        ''schema'')"
  using shop_ids
    conversion_independent_of_fresh_ids [where E = shopEnv and cuidA = "\<lambda>i. if i = 0 then ''a0'' else ''a1''"
      and cuidB = "\<lambda>i. if i = 0 then ''b0'' else ''b1''" and schema = "''schema''"]
  by simp

end
